theory Spec2Isabelle
  imports Main "HOL-Library.Sublist" "HOL-Library.AList"
begin

section \<open>Python strings\<close>

text \<open>
  A Python \<open>str\<close> is modelled as a HOL \<open>string\<close>; every character is read as the code
  point of the same number, from 0 to 255, and the tables below (whitespace, word
  characters, case) are Python's on these code points. Text with a code point above
  255 is outside the model.
\<close>

text \<open>\<open>sub in text\<close> on strings: \<open>sub\<close> occurs in \<open>text\<close> as a contiguous run.\<close>

fun py_in :: "string \<Rightarrow> string \<Rightarrow> bool" where
  "py_in sub [] = (sub = [])"
| "py_in sub (c # cs) = (prefix sub (c # cs) \<or> py_in sub cs)"

text \<open>\<open>str(n)\<close> for an integer: the decimal digits, with a minus sign below zero.\<close>

definition digit_char :: "nat \<Rightarrow> char" where
  "digit_char d = ''0123456789'' ! (d mod 10)"

fun digits :: "nat \<Rightarrow> string" where
  "digits n = (if n < 10 then [digit_char n] else digits (n div 10) @ [digit_char (n mod 10)])"

declare digits.simps [simp del]

definition str_int :: "int \<Rightarrow> string" where
  "str_int i = (if i < 0 then CHR ''-'' # digits (nat (- i)) else digits (nat i))"

text \<open>
  Character classes of the code points 0 to 255. \<open>str.isspace\<close> is what \<open>strip()\<close>,
  \<open>split()\<close> and the pattern \<open>\s\<close> take for whitespace: tab to carriage return, the four
  separators 28 to 31, the blank, the next-line control U+0085 and the no-break space
  U+00A0. The decimal digits are those of the pattern \<open>\d\<close> and of \<open>int\<close>. The capitals that
  have a small letter are A to Z and U+00C0 to U+00DE without the multiplication sign;
  the small letters that have a capital within the range are a to z and U+00E0 to U+00FE
  without the division sign. The word characters of the pattern \<open>\w\<close> are the letters,
  the digits, the underscore and the other characters that \<open>str.isalnum\<close> accepts: the
  ordinal indicators, the micro sign, the superscripts 1 to 3, the three fractions, the
  sharp s and the y with diaeresis.
\<close>

definition py_isspace :: "char \<Rightarrow> bool" where
  "py_isspace c =
     (let n = (of_char c :: nat)
      in (9 \<le> n \<and> n \<le> 13) \<or> (28 \<le> n \<and> n \<le> 32) \<or> n = 133 \<or> n = 160)"

definition is_digit :: "char \<Rightarrow> bool" where
  "is_digit c = (let n = (of_char c :: nat) in 48 \<le> n \<and> n \<le> 57)"

definition is_upper :: "char \<Rightarrow> bool" where
  "is_upper c =
     (let n = (of_char c :: nat)
      in (65 \<le> n \<and> n \<le> 90) \<or> (192 \<le> n \<and> n \<le> 222 \<and> n \<noteq> 215))"

definition is_lower :: "char \<Rightarrow> bool" where
  "is_lower c =
     (let n = (of_char c :: nat)
      in (97 \<le> n \<and> n \<le> 122) \<or> (224 \<le> n \<and> n \<le> 254 \<and> n \<noteq> 247))"

definition is_word :: "char \<Rightarrow> bool" where
  "is_word c =
     (is_upper c \<or> is_lower c \<or> is_digit c \<or> c = CHR ''_''
      \<or> (of_char c :: nat) \<in> {170, 178, 179, 181, 185, 186, 188, 189, 190, 223, 255})"

text \<open>
  The two cases of a letter differ by 32, the bit of weight 32 of the code point: set in
  the small letters, clear in the capitals.
\<close>

definition lower_char :: "char \<Rightarrow> char" where
  "lower_char c =
     (if is_upper c
      then (case c of Char b0 b1 b2 b3 b4 b5 b6 b7 \<Rightarrow> Char b0 b1 b2 b3 b4 True b6 b7)
      else c)"

definition upper_char :: "char \<Rightarrow> char" where
  "upper_char c =
     (if is_lower c
      then (case c of Char b0 b1 b2 b3 b4 b5 b6 b7 \<Rightarrow> Char b0 b1 b2 b3 b4 False b6 b7)
      else c)"

text \<open>
  The first character of \<open>w.capitalize()\<close> is put into title case: the capital of a small
  letter, and \<open>Ss\<close> for the sharp s. The capitals of the micro sign U+00B5 and of the y
  with diaeresis U+00FF lie above code point 255; the model leaves these two letters as
  they are, which is where \<open>capitalize\<close> is not Python's on a text of the model.
\<close>

definition title_char :: "char \<Rightarrow> string" where
  "title_char c = (if c = CHR 0xDF then ''Ss'' else [upper_char c])"

text \<open>\<open>s.lower()\<close>, \<open>s.strip()\<close>, \<open>s.strip(chars)\<close>, \<open>s.split()\<close>, \<open>w.capitalize()\<close>,
  \<open>sep.join(xs)\<close>.\<close>

definition py_lower :: "string \<Rightarrow> string" where
  "py_lower s = map lower_char s"

definition strip_with :: "(char \<Rightarrow> bool) \<Rightarrow> string \<Rightarrow> string" where
  "strip_with p s = rev (dropWhile p (rev (dropWhile p s)))"

definition py_strip :: "string \<Rightarrow> string" where
  "py_strip s = strip_with py_isspace s"

definition py_strip_chars :: "string \<Rightarrow> string \<Rightarrow> string" where
  "py_strip_chars chars s = strip_with (\<lambda>c. c \<in> set chars) s"

fun split_ws :: "string \<Rightarrow> string \<Rightarrow> string list" where
  "split_ws cur [] = (if cur = [] then [] else [cur])"
| "split_ws cur (c # cs) =
     (if py_isspace c then (if cur = [] then split_ws [] cs else cur # split_ws [] cs)
      else split_ws (cur @ [c]) cs)"

definition py_split :: "string \<Rightarrow> string list" where
  "py_split s = split_ws [] s"

definition capitalize :: "string \<Rightarrow> string" where
  "capitalize w = (case w of [] \<Rightarrow> [] | c # cs \<Rightarrow> title_char c @ map lower_char cs)"

fun py_join :: "string \<Rightarrow> string list \<Rightarrow> string" where
  "py_join sep [] = []"
| "py_join sep [x] = x"
| "py_join sep (x # y # xs) = x @ sep @ py_join sep (y # xs)"

text \<open>\<open>any(k in q for k in keys)\<close>.\<close>

definition any_in :: "string list \<Rightarrow> string \<Rightarrow> bool" where
  "any_in keys q = list_ex (\<lambda>k. py_in k q) keys"

text \<open>
  \<open>int(s)\<close> on a run of decimal digits. CPython (3.11 and later) raises \<open>ValueError\<close>
  for more than 4300 digits; \<open>None\<close> stands for that error.
\<close>

definition digit_val :: "char \<Rightarrow> int" where
  "digit_val c = int (length (takeWhile (\<lambda>d. d \<noteq> c) ''0123456789''))"

definition int_of_digits :: "string \<Rightarrow> int" where
  "int_of_digits s = foldl (\<lambda>a c. 10 * a + digit_val c) 0 s"

definition py_int :: "string \<Rightarrow> int option" where
  "py_int s = (if length s > 4300 then None else Some (int_of_digits s))"

section \<open>Regular expressions\<close>

text \<open>
  The patterns of the extractor, as data. \<open>re.search\<close> is a backtracking matcher: at each
  start position, from the left, it tries the alternatives of the pattern in priority
  order (a greedy repetition takes the longest run first, a lazy one the shortest) and
  returns the first match with the text of its groups. The matcher below returns every
  way a pattern matches at a position, in that priority order; the search takes the
  first. Repetition is over single characters of a class, as in every pattern of the
  source, and groups are not nested, so the groups close in the order they open.
\<close>

datatype cls = Digit | Space | Word | OneOf string | NoneOf string | Union cls cls

fun cls_has :: "cls \<Rightarrow> char \<Rightarrow> bool" where
  "cls_has Digit c = is_digit c"
| "cls_has Space c = py_isspace c"
| "cls_has Word c = is_word c"
| "cls_has (OneOf cs) c = (c \<in> set cs)"
| "cls_has (NoneOf cs) c = (c \<notin> set cs)"
| "cls_has (Union a b) c = (cls_has a c \<or> cls_has b c)"

datatype rx =
    Lit string          \<comment> \<open>these characters, in sequence\<close>
  | Cls cls             \<comment> \<open>one character of the class\<close>
  | Many cls nat        \<comment> \<open>at least so many characters of the class, greedy\<close>
  | Few cls nat         \<comment> \<open>at least so many characters of the class, lazy\<close>
  | Seq rx rx
  | Alt rx rx
  | Opt rx              \<comment> \<open>greedy \<open>(?:...)?\<close>\<close>
  | Grp rx              \<comment> \<open>a capturing group\<close>
  | Bnd                 \<comment> \<open>the word boundary \<open>\b\<close>\<close>

text \<open>A position in the text: the character before it (none at the start), and the rest.\<close>

type_synonym cursor = "char option \<times> string"

definition advance :: "nat \<Rightarrow> cursor \<Rightarrow> cursor" where
  "advance n cur =
     (if n = 0 then cur else (Some (snd cur ! (n - 1)), drop n (snd cur)))"

definition at_boundary :: "cursor \<Rightarrow> bool" where
  "at_boundary cur =
     ((case fst cur of None \<Rightarrow> False | Some c \<Rightarrow> is_word c)
      \<noteq> (case snd cur of [] \<Rightarrow> False | c # _ \<Rightarrow> is_word c))"

text \<open>
  A match in progress: the position reached and the texts of the groups closed so far.
  \<open>rx_match\<close> lists every way the pattern matches from there, in priority order.
\<close>

type_synonym mstate = "cursor \<times> string list"

fun rx_match :: "bool \<Rightarrow> rx \<Rightarrow> mstate \<Rightarrow> mstate list" where
  "rx_match ic (Lit s) (cur, gs) =
     (let n = length s; norm = (if ic then py_lower else id)
      in if n \<le> length (snd cur) \<and> norm (take n (snd cur)) = norm s
         then [(advance n cur, gs)] else [])"
| "rx_match ic (Cls k) (cur, gs) =
     (case snd cur of [] \<Rightarrow> [] | c # cs \<Rightarrow> if cls_has k c then [((Some c, cs), gs)] else [])"
| "rx_match ic (Many k n) (cur, gs) =
     map (\<lambda>m. (advance m cur, gs)) (rev [n ..< Suc (length (takeWhile (cls_has k) (snd cur)))])"
| "rx_match ic (Few k n) (cur, gs) =
     map (\<lambda>m. (advance m cur, gs)) [n ..< Suc (length (takeWhile (cls_has k) (snd cur)))]"
| "rx_match ic (Seq a b) (cur, gs) = concat (map (rx_match ic b) (rx_match ic a (cur, gs)))"
| "rx_match ic (Alt a b) (cur, gs) = rx_match ic a (cur, gs) @ rx_match ic b (cur, gs)"
| "rx_match ic (Opt a) (cur, gs) = rx_match ic a (cur, gs) @ [(cur, gs)]"
| "rx_match ic (Grp a) (cur, gs) =
     map (\<lambda>m. (fst m, snd m @ [take (length (snd cur) - length (snd (fst m))) (snd cur)]))
         (rx_match ic a (cur, gs))"
| "rx_match ic Bnd (cur, gs) = (if at_boundary cur then [(cur, gs)] else [])"

text \<open>\<open>re.search\<close>: the groups of the first match, trying the start positions from the
  left; the flag is \<open>re.IGNORECASE\<close>.\<close>

fun search_from :: "bool \<Rightarrow> rx \<Rightarrow> char option \<Rightarrow> string \<Rightarrow> string list option" where
  "search_from ic r prev [] =
     (case rx_match ic r ((prev, []), []) of [] \<Rightarrow> None | m # _ \<Rightarrow> Some (snd m))"
| "search_from ic r prev (c # cs) =
     (case rx_match ic r ((prev, c # cs), []) of
        [] \<Rightarrow> search_from ic r (Some c) cs
      | m # _ \<Rightarrow> Some (snd m))"

definition re_search :: "bool \<Rightarrow> rx \<Rightarrow> string \<Rightarrow> string list option" where
  "re_search ic r s = search_from ic r None s"

fun seqs :: "rx list \<Rightarrow> rx" where
  "seqs [] = Lit []"
| "seqs [r] = r"
| "seqs (r # rs) = Seq r (seqs rs)"

section \<open>The rule-based extractor: years\<close>

text \<open>
  \<^verbatim>\<open>
  def _extract_year(text):
      for year in range(2015, 2031):
          if str(year) in text:
              return year
      return None
  \<close>
  The loop is a recursion over the years still to try; the first hit returns.
\<close>

fun first_year :: "string \<Rightarrow> int list \<Rightarrow> int option" where
  "first_year txt [] = None"
| "first_year txt (year # years) =
     (if py_in (str_int year) txt then Some year else first_year txt years)"

definition extract_year :: "string \<Rightarrow> int option" where
  "extract_year txt = first_year txt [2015..2030]"

declare py_in.simps [simp del] rx_match.simps [simp del] search_from.simps [simp del]
  split_ws.simps [simp del]

section \<open>Python values\<close>

text \<open>
  The values an intent payload holds (the payload is a \<open>dict[str, Any]\<close> read from JSON or
  built by the extractor): \<open>None\<close>, booleans, integers, floats, strings, lists and
  dictionaries with string keys. A float is identified by its \<open>repr\<close> text, which is all
  the code observes of it besides its being zero or not. A dictionary is the list of its
  items in insertion order; assignment replaces the value of a key in place or adds the
  key at the end.
\<close>

datatype pyval =
    PNone
  | PBool bool
  | PInt int
  | PFloat string
  | PStr string
  | PList "pyval list"
  | PDict "(string \<times> pyval) list"

type_synonym pydict = "(string \<times> pyval) list"

definition dict_set :: "pydict \<Rightarrow> string \<Rightarrow> pyval \<Rightarrow> pydict" where
  "dict_set d k v = AList.update k v d"

text \<open>\<open>d.get(k)\<close>: the value, or \<open>None\<close> for a missing key.\<close>

definition dict_get :: "pydict \<Rightarrow> string \<Rightarrow> pyval" where
  "dict_get d k = (case map_of d k of None \<Rightarrow> PNone | Some v \<Rightarrow> v)"

text \<open>\<open>d.update(e)\<close> and \<open>{**d, **e}\<close>: the items of \<open>e\<close> assigned in order.\<close>

definition dict_update :: "pydict \<Rightarrow> pydict \<Rightarrow> pydict" where
  "dict_update d e = foldl (\<lambda>a kv. dict_set a (fst kv) (snd kv)) d e"

definition dict_keys :: "pydict \<Rightarrow> string set" where
  "dict_keys d = fst ` set d"

text \<open>Truth of a value (\<open>bool(v)\<close>, \<open>if v\<close>), and \<open>a or b\<close>.\<close>

fun truthy :: "pyval \<Rightarrow> bool" where
  "truthy PNone = False"
| "truthy (PBool b) = b"
| "truthy (PInt i) = (i \<noteq> 0)"
| "truthy (PFloat r) = (r \<noteq> ''0.0'' \<and> r \<noteq> ''-0.0'')"
| "truthy (PStr s) = (s \<noteq> [])"
| "truthy (PList xs) = (xs \<noteq> [])"
| "truthy (PDict d) = (d \<noteq> [])"

definition py_or :: "pyval \<Rightarrow> pyval \<Rightarrow> pyval" where
  "py_or a b = (if truthy a then a else b)"

text \<open>
  \<open>isinstance(v, int)\<close> holds of the integers and of the booleans (\<open>bool\<close> is a subclass of
  \<open>int\<close>, with \<open>True == 1\<close> and \<open>False == 0\<close>); \<open>int_val\<close> is the number compared.
\<close>

fun is_int :: "pyval \<Rightarrow> bool" where
  "is_int (PInt i) = True"
| "is_int (PBool b) = True"
| "is_int v = False"

fun int_val :: "pyval \<Rightarrow> int" where
  "int_val (PInt i) = i"
| "int_val (PBool b) = (if b then 1 else 0)"
| "int_val v = 0"

fun is_list :: "pyval \<Rightarrow> bool" where
  "is_list (PList xs) = True"
| "is_list v = False"

fun is_dict :: "pyval \<Rightarrow> bool" where
  "is_dict (PDict d) = True"
| "is_dict v = False"

fun items :: "pyval \<Rightarrow> pyval list" where
  "items (PList xs) = xs"
| "items v = []"

text \<open>
  The exceptions, each with its message: \<open>QueryPlannerError\<close> of the planner; \<open>TypeError\<close>,
  which Python raises when a list or a dictionary is looked up in a \<open>dict\<close> or a \<open>set\<close>
  (an unhashable type); \<open>ValueError\<close> and \<open>OverflowError\<close> of the conversions between
  numbers and text; and any other exception derived from \<open>Exception\<close>.
\<close>

datatype pyerror =
    QueryPlannerError string
  | TypeError string
  | ValueError string
  | OverflowError string
  | OtherException string

text \<open>
  \<open>str(v)\<close> and the f-string \<open>{v}\<close>: a string is itself, and a value of another type is
  printed by its \<open>repr\<close>. That can fail where the interpreter reaches one of its limits
  (CPython 3.11 raises \<open>ValueError\<close> for an integer of more than 4300 digits, and an error
  for lists nested deeper than its stack allows). What \<open>repr\<close> gives for a value that is
  not a string, and where it fails, is a parameter of the model: \<open>repr_of\<close>.
\<close>

definition py_str :: "(pyval \<Rightarrow> pyerror + string) \<Rightarrow> pyval \<Rightarrow> pyerror + string" where
  "py_str repr_of v = (case v of PStr s \<Rightarrow> Inr s | _ \<Rightarrow> repr_of v)"

text \<open>
  \<open>repr\<close> of a string of this model: single quotes, or double quotes when the string has
  a single quote and no double quote; the quote and the backslash escaped, tab, newline
  and carriage return by letter, and the other characters that are not printable (the
  controls, the no-break space and the soft hyphen) as \<open>\xhh\<close>.
\<close>

definition hex_char :: "nat \<Rightarrow> char" where
  "hex_char d = ''0123456789abcdef'' ! (d mod 16)"

definition repr_char :: "char \<Rightarrow> char \<Rightarrow> string" where
  "repr_char quote c =
     (let n = (of_char c :: nat)
      in if c = quote \<or> c = CHR 0x5C then [CHR 0x5C, c]
         else if c = CHR 0x09 then [CHR 0x5C, CHR ''t'']
         else if c = CHR 0x0A then [CHR 0x5C, CHR ''n'']
         else if c = CHR 0x0D then [CHR 0x5C, CHR ''r'']
         else if n < 32 \<or> (127 \<le> n \<and> n \<le> 160) \<or> n = 173
           then [CHR 0x5C, CHR ''x'', hex_char (n div 16), hex_char (n mod 16)]
         else [c])"

definition repr_str :: "string \<Rightarrow> string" where
  "repr_str s =
     (let quote = (if CHR 0x27 \<in> set s \<and> CHR 0x22 \<notin> set s then CHR 0x22 else CHR 0x27)
      in [quote] @ concat (map (repr_char quote) s) @ [quote])"

text \<open>
  The text that \<open>repr\<close> prints when no limit is reached, and the values on which CPython
  3.11 refuses to print an integer: those that hold one of more than 4300 digits.
  \<open>repr_cpython\<close> is the \<open>repr\<close> of that interpreter on values that its stack can hold; it
  is the one used where a plan is computed for a concrete payload.
\<close>

primrec py_repr :: "pyval \<Rightarrow> string" where
  "py_repr PNone = ''None''"
| "py_repr (PBool b) = (if b then ''True'' else ''False'')"
| "py_repr (PInt i) = str_int i"
| "py_repr (PFloat r) = r"
| "py_repr (PStr s) = repr_str s"
| "py_repr (PList xs) = ''['' @ py_join '', '' (map py_repr xs) @ '']''"
| "py_repr (PDict d) =
     ''{'' @ py_join '', '' (map (\<lambda>kv. repr_str (fst kv) @ '': '' @ snd kv)
                                (map (map_prod id py_repr) d)) @ ''}''"

primrec long_int :: "pyval \<Rightarrow> bool" where
  "long_int PNone = False"
| "long_int (PBool b) = False"
| "long_int (PInt i) = (10 ^ 4300 \<le> \<bar>i\<bar>)"
| "long_int (PFloat r) = False"
| "long_int (PStr s) = False"
| "long_int (PList xs) = (True \<in> set (map long_int xs))"
| "long_int (PDict d) = (True \<in> set (map snd (map (map_prod id long_int) d)))"

definition repr_cpython :: "pyval \<Rightarrow> pyerror + string" where
  "repr_cpython v =
     (if long_int v
      then Inl (ValueError ''Exceeds the limit (4300 digits) for integer string conversion'')
      else Inr (py_repr v))"

text \<open>\<open>isinstance(v, str) and v.strip()\<close>: the stripped text of a string that is not blank.\<close>

definition nonblank :: "pyval \<Rightarrow> string option" where
  "nonblank v = (case v of PStr s \<Rightarrow> if py_strip s = [] then None else Some (py_strip s) | _ \<Rightarrow> None)"

section \<open>The rule-based extractor\<close>

subsection \<open>Category phrases\<close>

text \<open>
  \<^verbatim>\<open>
  def _normalize_category(raw):
      if not raw:
          return None
      s = raw.strip().strip("\"'")
      s = s.strip(" .,:;()[]{}")
      if not s:
          return None
      return " ".join(w.capitalize() for w in s.split())
  \<close>
\<close>

definition normalize_category :: "string option \<Rightarrow> string option" where
  "normalize_category raw =
     (case raw of None \<Rightarrow> None
      | Some r \<Rightarrow>
          if r = [] then None
          else let s = py_strip_chars [CHR 0x22, CHR 0x27] (py_strip r);
                   s = py_strip_chars '' .,:;()[]{}'' s
               in if s = [] then None
                  else Some (py_join '' '' (map capitalize (py_split s))))"

text \<open>
  The three patterns of \<open>_extract_category\<close>, searched with \<open>re.IGNORECASE\<close>:
  \<^verbatim>\<open>\b(?:only\s+)?in\s+the\s+([\w &/\-]+?)\s+category\b\<close>,
  \<^verbatim>\<open>\b(?:only\s+)?in\s+([\w &/\-]+?)\s+category\b\<close> and
  \<^verbatim>\<open>\bcategory\s*[:=]?\s*([\w &/\-]+)\b\<close>.
\<close>

definition cat_cls :: cls where
  "cat_cls = Union Word (OneOf '' &/-'')"

definition rx_in_the_category :: rx where
  "rx_in_the_category =
     seqs [Bnd, Opt (Seq (Lit ''only'') (Many Space 1)), Lit ''in'', Many Space 1,
           Lit ''the'', Many Space 1, Grp (Few cat_cls 1), Many Space 1,
           Lit ''category'', Bnd]"

definition rx_in_category :: rx where
  "rx_in_category =
     seqs [Bnd, Opt (Seq (Lit ''only'') (Many Space 1)), Lit ''in'', Many Space 1,
           Grp (Few cat_cls 1), Many Space 1, Lit ''category'', Bnd]"

definition rx_category_is :: rx where
  "rx_category_is =
     seqs [Bnd, Lit ''category'', Many Space 0, Opt (Cls (OneOf '':='')), Many Space 0,
           Grp (Many cat_cls 1), Bnd]"

text \<open>
  \<^verbatim>\<open>
  def _extract_category(text):
      t = text.strip()
      m = re.search(<in the X category>, t, re.IGNORECASE)
      if not m:
          m = re.search(<in X category>, t, re.IGNORECASE)
      if not m:
          m = re.search(<category X>, t, re.IGNORECASE)
      if not m:
          return None
      return _normalize_category(m.group(1))
  \<close>
  Each pattern has one group, so a match carries one text.
\<close>

definition first_group :: "string list option \<Rightarrow> string option" where
  "first_group m = (case m of Some (g # _) \<Rightarrow> Some g | _ \<Rightarrow> None)"

definition extract_category :: "string \<Rightarrow> string option" where
  "extract_category question =
     (let t = py_strip question;
          m = first_group (re_search True rx_in_the_category t);
          m = (if m = None then first_group (re_search True rx_in_category t) else m);
          m = (if m = None then first_group (re_search True rx_category_is t) else m)
      in if m = None then None else normalize_category m)"

text \<open>
  \<^verbatim>\<open>
  def _mentions_comparison(text):
      t = text.lower()
      return any(k in t for k in (" vs ", " versus ", "compare ", "comparison"))
  \<close>
\<close>

definition mentions_comparison :: "string \<Rightarrow> bool" where
  "mentions_comparison question =
     any_in ['' vs '', '' versus '', ''compare '', ''comparison''] (py_lower question)"

subsection \<open>Years, ranges and limits\<close>

text \<open>
  \<^verbatim>\<open>
  def _extract_two_years(text):
      found = []
      for year in range(2015, 2031):
          if str(year) in text:
              found.append(year)
      unique = sorted(set(found))
      if len(unique) >= 2:
          return unique[:2]
      return None
  \<close>
\<close>

definition extract_two_years :: "string \<Rightarrow> int list option" where
  "extract_two_years s =
     (let found = filter (\<lambda>year. py_in (str_int year) s) [2015..2030];
          unique = sort (remdups found)
      in if length unique \<ge> 2 then Some (take 2 unique) else None)"

text \<open>
  The patterns of \<open>_extract_year_range\<close>, in the order tried:
  \<^verbatim>\<open>(20\d{2})\s*[-...]\s*(20\d{2})\<close> (the class holds the hyphen and the en dash U+2013,
  which no text of this model contains),
  \<^verbatim>\<open>(20\d{2})\s+(?:to|through|thru)\s+(20\d{2})\<close>,
  \<^verbatim>\<open>between\s+(20\d{2})\s+and\s+(20\d{2})\<close>,
  \<^verbatim>\<open>from\s+(20\d{2})\<close> and \<^verbatim>\<open>to\s+(20\d{2})\<close>.
  A group holds four digits, on which \<open>int\<close> cannot fail.
\<close>

definition rx_year :: rx where
  "rx_year = Grp (seqs [Lit ''20'', Cls Digit, Cls Digit])"

definition rx_range_dash :: rx where
  "rx_range_dash = seqs [rx_year, Many Space 0, Cls (OneOf ''-''), Many Space 0, rx_year]"

definition rx_range_to :: rx where
  "rx_range_to =
     seqs [rx_year, Many Space 1, Alt (Lit ''to'') (Alt (Lit ''through'') (Lit ''thru'')),
           Many Space 1, rx_year]"

definition rx_range_between :: rx where
  "rx_range_between =
     seqs [Lit ''between'', Many Space 1, rx_year, Many Space 1, Lit ''and'', Many Space 1,
           rx_year]"

definition rx_from :: rx where
  "rx_from = seqs [Lit ''from'', Many Space 1, rx_year]"

definition rx_to :: rx where
  "rx_to = seqs [Lit ''to'', Many Space 1, rx_year]"

definition two_groups :: "string list option \<Rightarrow> (int option \<times> int option) option" where
  "two_groups m =
     (case m of
        Some (a # b # _) \<Rightarrow> Some (Some (int_of_digits a), Some (int_of_digits b))
      | _ \<Rightarrow> None)"

definition extract_year_range :: "string \<Rightarrow> int option \<times> int option" where
  "extract_year_range s =
     (case two_groups (re_search False rx_range_dash s) of
        Some r \<Rightarrow> r
      | None \<Rightarrow>
     (case two_groups (re_search False rx_range_to s) of
        Some r \<Rightarrow> r
      | None \<Rightarrow>
     (case two_groups (re_search False rx_range_between s) of
        Some r \<Rightarrow> r
      | None \<Rightarrow>
         (map_option int_of_digits (first_group (re_search False rx_from s)),
          map_option int_of_digits (first_group (re_search False rx_to s))))))"

text \<open>
  \<^verbatim>\<open>
  def _extract_limit(text):
      m = re.search(r"top\s+(\d+)", text)
      if not m:
          return None
      try:
          return int(m.group(1))
      except ValueError:
          return None
  \<close>
\<close>

definition rx_top_n :: rx where
  "rx_top_n = seqs [Lit ''top'', Many Space 1, Grp (Many Digit 1)]"

definition extract_limit :: "string \<Rightarrow> int option" where
  "extract_limit s =
     (case first_group (re_search False rx_top_n s) of
        None \<Rightarrow> None
      | Some g \<Rightarrow> py_int g)"

text \<open>\<open>_extract_limit(q) or default\<close>: the default also replaces a limit of zero.\<close>

definition limit_or :: "int \<Rightarrow> int option \<Rightarrow> int" where
  "limit_or d l = (case l of None \<Rightarrow> d | Some n \<Rightarrow> if n = 0 then d else n)"

subsection \<open>The rule cascade\<close>

text \<open>
  \<open>_stub_parse\<close> returns a payload
  \<^verbatim>\<open>{"intent": ..., "metrics": ["total_revenue"], "dimensions": [dim], "filters": ..., "chart": ...}\<close>
  from the first rule that applies. \<open>_base_filters()\<close> holds the category when one was
  found (and is not the empty string).
\<close>

definition payload :: "string \<Rightarrow> string \<Rightarrow> pydict \<Rightarrow> string \<Rightarrow> pydict" where
  "payload intent dim filters chart =
     [(''intent'', PStr intent),
      (''metrics'', PList [PStr ''total_revenue'']),
      (''dimensions'', PList [PStr dim]),
      (''filters'', PDict filters),
      (''chart'', PStr chart)]"

definition base_filters :: "string option \<Rightarrow> pydict" where
  "base_filters category =
     (case category of None \<Rightarrow> [] | Some c \<Rightarrow> if c = [] then [] else [(''category'', PStr c)])"

text \<open>\<open>if v is not None: filters[k] = v\<close>.\<close>

definition set_opt :: "string \<Rightarrow> int option \<Rightarrow> pydict \<Rightarrow> pydict" where
  "set_opt k v d = (case v of None \<Rightarrow> d | Some y \<Rightarrow> dict_set d k (PInt y))"

text \<open>The pattern \<^verbatim>\<open>\"([^\"]+)\"\<close> of the range rule: a quoted product name.\<close>

definition rx_quoted :: rx where
  "rx_quoted = seqs [Lit [CHR 0x22], Grp (Many (NoneOf [CHR 0x22]) 1), Lit [CHR 0x22]]"

text \<open>
  The rules after the year range, lines 193 to 288 of the source: two years compared,
  the last three years, a yearly average, a total for a year, products, categories, a
  vague overview, and the default trend.
\<close>

definition stub_parse_tail :: "string \<Rightarrow> string \<Rightarrow> string option \<Rightarrow> pydict" where
  "stub_parse_tail question q category =
     (let years = extract_two_years q in
      if years \<noteq> None \<and> mentions_comparison question then
        payload ''sales_comparison_by_year'' ''year''
          (dict_update [(''years'', PList (map PInt (the years)))] (base_filters category))
          ''bar''
      else if years \<noteq> None \<and> any_in [''gap'', ''difference'', ''increase'', ''decrease''] q then
        payload ''sales_comparison_by_year'' ''year''
          (dict_update [(''years'', PList (map PInt (the years)))] (base_filters category))
          ''bar''
      else if any_in [''last 3 years'', ''last three years''] q then
        payload ''multi_year_comparison'' ''year''
          (dict_set (base_filters category) ''year_count'' (PInt 3)) ''bar''
      else if py_in ''average'' q \<and> (py_in ''year'' q \<or> py_in ''yearly'' q) then
        payload ''multi_year_comparison'' ''year''
          (dict_set (dict_set (base_filters category) ''year_count'' (PInt 5))
             ''average'' (PBool True))
          ''bar''
      else if any_in [''total sales'', ''total revenue'', ''how much did we sell'',
                      ''how much revenue''] q
              \<and> extract_year q \<noteq> None then
        payload ''total_sales_for_period'' ''year''
          (dict_set (base_filters category) ''year'' (PInt (the (extract_year q)))) ''bar''
      else if any_in [''which products'', ''by product'', ''across all products'',
                      ''rank products''] q then
        payload ''sales_by_product'' ''product''
          (set_opt ''year'' (extract_year q) (base_filters category)) ''bar''
      else if any_in [''category generates'', ''between categories'', ''categories performing'',
                      ''different categories''] q then
        payload ''sales_by_category'' ''category''
          (set_opt ''year'' (extract_year q) (base_filters category)) ''bar''
      else if any_in [''overall'', ''overview'', ''how are we doing'', ''sales performance'',
                      ''business performing''] q then
        payload ''clarification_required'' ''year'' [] ''line''
      else
        payload ''sales_trend_over_time'' ''year'' (base_filters category) ''line'')"

text \<open>The year range rule, lines 152 to 191 of the source.\<close>

definition stub_parse_range :: "string \<Rightarrow> string \<Rightarrow> string option \<Rightarrow> pydict" where
  "stub_parse_range question q category =
     (let (year_from, year_to) = extract_year_range q in
      if year_from \<noteq> None \<or> year_to \<noteq> None then
        (let filters = set_opt ''year_to'' year_to (set_opt ''year_from'' year_from []);
             filters = dict_update filters (base_filters category);
             m = first_group (re_search False rx_quoted question)
         in if m \<noteq> None
               \<and> (py_in ''trend'' q \<or> py_in ''over time'' q \<or> py_in ''year by year'' q) then
              payload ''product_sales_trend'' ''year''
                (dict_set filters ''product_name'' (PStr (py_strip (the m)))) ''line''
            else if any_in [''year-over-year'', ''year over year'', ''yoy'', ''growth'',
                            ''declin''] q then
              payload ''sales_growth_analysis'' ''year'' filters ''line''
            else
              payload ''sales_trend_over_time'' ''year'' filters ''line'')
      else stub_parse_tail question q category)"

text \<open>
  The head of \<open>_stub_parse\<close>, lines 86 to 150 of the source: a grouping by category, the
  top and the bottom performers, a breakdown for a year. A breakdown rule that finds no
  year falls through to the rules below it.
\<close>

definition stub_parse :: "string \<Rightarrow> pydict" where
  "stub_parse question =
     (let q = py_lower question;
          category = extract_category question;
          noun = (py_in ''product'' q \<or> py_in ''products'' q
                  \<or> py_in ''category'' q \<or> py_in ''categories'' q);
          entity = (if py_in ''category'' q \<or> py_in ''categories'' q
                    then ''category'' else ''product'')
      in
      if any_in [''by category'', ''per category'', ''group by category'',
                 ''grouped by category'', ''breakdown by category''] q then
        payload ''sales_by_category'' ''category''
          (set_opt ''year'' (extract_year q) (base_filters category)) ''bar''
      else if (py_in ''top'' q \<or> py_in ''best-selling'' q \<or> py_in ''best selling'' q) \<and> noun then
        payload ''top_bottom_performers'' entity
          (set_opt ''year'' (extract_year q)
             (dict_set (dict_set (dict_set (base_filters category)
                ''limit'' (PInt (limit_or 10 (extract_limit q))))
                ''order'' (PStr ''top''))
                ''entity'' (PStr entity)))
          ''bar''
      else if any_in [''worst'', ''lowest'', ''bottom''] q \<and> noun then
        payload ''top_bottom_performers'' entity
          (set_opt ''year'' (extract_year q)
             (dict_set (dict_set (dict_set (base_filters category)
                ''limit'' (PInt (limit_or 5 (extract_limit q))))
                ''order'' (PStr ''bottom''))
                ''entity'' (PStr entity)))
          ''bar''
      else if any_in [''break down'', ''breakdown'', ''category-wise'', ''category wise''] q
              \<and> extract_year q \<noteq> None then
        payload ''sales_breakdown_for_year'' entity
          (dict_set (base_filters category) ''year'' (PInt (the (extract_year q)))) ''bar''
      else stub_parse_range question q category)"

section \<open>The intent catalog\<close>

text \<open>
  \<open>IntentSpec\<close> and the table \<open>INTENTS\<close> of \<open>catalog.py\<close>, in the order of the source (the
  field \<open>name\<close> is \<open>spec_name\<close> here).
\<close>

record IntentSpec =
  spec_name :: string
  allowed_metrics :: "string set"
  allowed_dimensions :: "string set"
  default_chart :: string

definition intent_spec :: "string \<Rightarrow> string set \<Rightarrow> string \<Rightarrow> string \<times> IntentSpec" where
  "intent_spec n dims chart =
     (n, \<lparr>spec_name = n, allowed_metrics = {''total_revenue''}, allowed_dimensions = dims,
          default_chart = chart\<rparr>)"

definition INTENTS :: "(string \<times> IntentSpec) list" where
  "INTENTS =
     [intent_spec ''sales_trend'' {''year''} ''line'',
      intent_spec ''sales_comparison'' {''year''} ''bar'',
      intent_spec ''revenue_by_category'' {''category''} ''bar'',
      intent_spec ''top_products'' {''product''} ''bar'',
      intent_spec ''sales_comparison_by_year'' {''year''} ''bar'',
      intent_spec ''sales_trend_over_time'' {''year''} ''line'',
      intent_spec ''total_sales_for_period'' {''year''} ''bar'',
      intent_spec ''sales_by_product'' {''product''} ''bar'',
      intent_spec ''product_sales_trend'' {''year''} ''line'',
      intent_spec ''sales_by_category'' {''category''} ''bar'',
      intent_spec ''top_bottom_performers'' {''product'', ''category''} ''bar'',
      intent_spec ''sales_breakdown_for_year'' {''product'', ''category''} ''bar'',
      intent_spec ''sales_growth_analysis'' {''year''} ''line'',
      intent_spec ''clarification_required'' {''year''} ''line'',
      intent_spec ''multi_year_comparison'' {''year''} ''bar'']"

section \<open>The query planner\<close>

subsection \<open>Plans and errors\<close>

record PlannedQuery =
  sql :: string
  params :: pydict
  chart_type :: string
  label_field :: string
  value_field :: string
  series_field :: "string option"

definition unhashable :: "pyval \<Rightarrow> string option" where
  "unhashable v =
     (case v of PList _ \<Rightarrow> Some ''list'' | PDict _ \<Rightarrow> Some ''dict'' | _ \<Rightarrow> None)"

definition unhashable_error :: "string \<Rightarrow> pyerror" where
  "unhashable_error ty = TypeError (''unhashable type: '' @ [CHR 0x27] @ ty @ [CHR 0x27])"

text \<open>
  \<^verbatim>\<open>
  def _validate_list(values, allowed, what):
      for v in values:
          if v not in allowed:
              raise QueryPlannerError(f"Unsupported {what}: {v}")
  \<close>
  \<open>allowed\<close> is a set of strings: a string is in it or not, a value of another hashable
  type is not in it, an unhashable one cannot be looked up. The message is formatted
  before the error is raised, so a value that cannot be printed raises its own error.
\<close>

definition planner_error :: "(pyval \<Rightarrow> pyerror + string) \<Rightarrow> string \<Rightarrow> pyval \<Rightarrow> pyerror" where
  "planner_error repr_of msg v =
     (case py_str repr_of v of Inl e \<Rightarrow> e | Inr s \<Rightarrow> QueryPlannerError (msg @ s))"

fun validate_list :: "(pyval \<Rightarrow> pyerror + string) \<Rightarrow> pyval list \<Rightarrow> string set \<Rightarrow> string
                        \<Rightarrow> pyerror + unit" where
  "validate_list repr_of [] allowed what = Inr ()"
| "validate_list repr_of (v # vs) allowed what =
     (case unhashable v of
        Some ty \<Rightarrow> Inl (unhashable_error ty)
      | None \<Rightarrow>
          if (case v of PStr s \<Rightarrow> s \<in> allowed | _ \<Rightarrow> False)
          then validate_list repr_of vs allowed what
          else Inl (planner_error repr_of (''Unsupported '' @ what @ '': '') v))"

text \<open>
  The head of \<open>plan_intent\<close>, lines 32 to 54 of the source: the intent is looked up in the
  catalog, metrics, dimensions and filters are read and checked, the chart is chosen,
  and \<open>dim0\<close> is the first dimension given, or else the first element of
  \<open>list(spec.allowed_dimensions)\<close>. The order in which a Python set of strings is listed
  depends on the hash seed of the process, so that choice is a parameter of the model:
  \<open>first_of s\<close> is the element a given process lists first. \<open>repr_of\<close> prints the value
  named in an error message.
  \<^verbatim>\<open>
  intent = intent_payload.get("intent")
  if intent not in INTENTS:
      raise QueryPlannerError(f"Unsupported intent: {intent}")
  spec = INTENTS[intent]
  metrics = intent_payload.get("metrics") or []
  dimensions = intent_payload.get("dimensions") or []
  filters = intent_payload.get("filters") or {}
  if not isinstance(metrics, list) or not isinstance(dimensions, list) or not isinstance(filters, dict):
      raise QueryPlannerError("Invalid intent JSON: metrics/dimensions/filters types")
  _validate_list(metrics, set(spec.allowed_metrics), "metric")
  _validate_list(dimensions, set(spec.allowed_dimensions), "dimension")
  chart = intent_payload.get("chart") or spec.default_chart
  if chart not in ("line", "bar"):
      chart = spec.default_chart
  intent_name = intent
  dim0 = dimensions[0] if dimensions else list(spec.allowed_dimensions)[0]
  \<close>
\<close>

record validated =
  v_intent :: string
  v_filters :: pydict
  v_chart :: string
  v_dim0 :: pyval

definition lookup_intent :: "(pyval \<Rightarrow> pyerror + string) \<Rightarrow> pyval \<Rightarrow> pyerror + IntentSpec" where
  "lookup_intent repr_of intent =
     (case unhashable intent of
        Some ty \<Rightarrow> Inl (unhashable_error ty)
      | None \<Rightarrow>
          (case (case intent of PStr s \<Rightarrow> map_of INTENTS s | _ \<Rightarrow> None) of
             None \<Rightarrow> Inl (planner_error repr_of ''Unsupported intent: '' intent)
           | Some spec \<Rightarrow> Inr spec))"

definition choose_chart :: "pyval \<Rightarrow> string \<Rightarrow> string" where
  "choose_chart given dflt =
     (let chart = py_or given (PStr dflt)
      in if chart = PStr ''line'' then ''line''
         else if chart = PStr ''bar'' then ''bar''
         else dflt)"

definition validate :: "(string set \<Rightarrow> string) \<Rightarrow> (pyval \<Rightarrow> pyerror + string) \<Rightarrow> pydict
                         \<Rightarrow> pyerror + validated" where
  "validate first_of repr_of intent_payload =
     (case lookup_intent repr_of (dict_get intent_payload ''intent'') of
        Inl e \<Rightarrow> Inl e
      | Inr spec \<Rightarrow>
     (let metrics = py_or (dict_get intent_payload ''metrics'') (PList []);
          dimensions = py_or (dict_get intent_payload ''dimensions'') (PList []);
          filters = py_or (dict_get intent_payload ''filters'') (PDict [])
      in
      if \<not> is_list metrics \<or> \<not> is_list dimensions \<or> \<not> is_dict filters then
        Inl (QueryPlannerError ''Invalid intent JSON: metrics/dimensions/filters types'')
      else
     (case validate_list repr_of (items metrics) (allowed_metrics spec) ''metric'' of
        Inl e \<Rightarrow> Inl e
      | Inr _ \<Rightarrow>
     (case validate_list repr_of (items dimensions) (allowed_dimensions spec) ''dimension'' of
        Inl e \<Rightarrow> Inl e
      | Inr _ \<Rightarrow>
          Inr \<lparr>v_intent = spec_name spec,
               v_filters = (case filters of PDict d \<Rightarrow> d | _ \<Rightarrow> []),
               v_chart = choose_chart (dict_get intent_payload ''chart'') (default_chart spec),
               v_dim0 = (case items dimensions of
                           d # _ \<Rightarrow> d
                         | [] \<Rightarrow> PStr (first_of (allowed_dimensions spec)))\<rparr>))))"

subsection \<open>The query templates\<close>

text \<open>
  The f-strings of \<open>plan_intent\<close>, character for character (a line break of the source is
  the character \<open>\<newline>\<close>); the arguments are the interpolated variables.
\<close>

text \<open>The template of lines 110 to 118.\<close>

definition sql_trend :: "string \<Rightarrow> string \<Rightarrow> string" where
  "sql_trend join_sql where_sql =
       ''\<newline>''
     @ ''            SELECT s.year::TEXT AS label,\<newline>''
     @ ''                   SUM(s.revenue)::NUMERIC AS value\<newline>''
     @ ''            FROM sales s\<newline>''
     @ ''            ''
     @ join_sql
     @ ''\<newline>''
     @ ''            ''
     @ where_sql
     @ ''\<newline>''
     @ ''            GROUP BY s.year\<newline>''
     @ ''            ORDER BY s.year ASC\<newline>''
     @ ''        ''"

text \<open>The template of lines 167 to 175.\<close>

definition sql_comparison_by_year :: "string \<Rightarrow> string \<Rightarrow> string" where
  "sql_comparison_by_year join_sql where_sql =
       ''\<newline>''
     @ ''            SELECT s.year::TEXT AS label,\<newline>''
     @ ''                   SUM(s.revenue)::NUMERIC AS value\<newline>''
     @ ''            FROM sales s\<newline>''
     @ ''            ''
     @ join_sql
     @ ''\<newline>''
     @ ''            ''
     @ where_sql
     @ ''\<newline>''
     @ ''            GROUP BY s.year\<newline>''
     @ ''            ORDER BY s.year ASC\<newline>''
     @ ''        ''"

text \<open>The template of lines 226 to 232.\<close>

definition sql_total :: "string \<Rightarrow> string \<Rightarrow> string" where
  "sql_total join_sql where_sql =
       ''\<newline>''
     @ ''            SELECT :label::TEXT AS label,\<newline>''
     @ ''                   COALESCE(SUM(s.revenue), 0)::NUMERIC AS value\<newline>''
     @ ''            FROM sales s\<newline>''
     @ ''            ''
     @ join_sql
     @ ''\<newline>''
     @ ''            ''
     @ where_sql
     @ ''\<newline>''
     @ ''        ''"

text \<open>The template of lines 265 to 274.\<close>

definition sql_by_product :: "string \<Rightarrow> string" where
  "sql_by_product where_sql =
       ''\<newline>''
     @ ''            SELECT p.name AS label,\<newline>''
     @ ''                   SUM(s.revenue)::NUMERIC AS value\<newline>''
     @ ''            FROM sales s\<newline>''
     @ ''            JOIN products p ON p.id = s.product_id\<newline>''
     @ ''            ''
     @ where_sql
     @ ''\<newline>''
     @ ''            GROUP BY p.name\<newline>''
     @ ''            ORDER BY value DESC\<newline>''
     @ ''            LIMIT :limit\<newline>''
     @ ''        ''"

text \<open>The template of lines 306 to 314.\<close>

definition sql_product_trend :: "string \<Rightarrow> string" where
  "sql_product_trend where_sql =
       ''\<newline>''
     @ ''            SELECT s.year::TEXT AS label,\<newline>''
     @ ''                   SUM(s.revenue)::NUMERIC AS value\<newline>''
     @ ''            FROM sales s\<newline>''
     @ ''            JOIN products p ON p.id = s.product_id\<newline>''
     @ ''            ''
     @ where_sql
     @ ''\<newline>''
     @ ''            GROUP BY s.year\<newline>''
     @ ''            ORDER BY s.year ASC\<newline>''
     @ ''        ''"

text \<open>The template of lines 338 to 346.\<close>

definition sql_by_category :: "string \<Rightarrow> string" where
  "sql_by_category where_sql =
       ''\<newline>''
     @ ''            SELECT p.category AS label,\<newline>''
     @ ''                   SUM(s.revenue)::NUMERIC AS value\<newline>''
     @ ''            FROM sales s\<newline>''
     @ ''            JOIN products p ON p.id = s.product_id\<newline>''
     @ ''            ''
     @ where_sql
     @ ''\<newline>''
     @ ''            GROUP BY p.category\<newline>''
     @ ''            ORDER BY value DESC\<newline>''
     @ ''        ''"

text \<open>The template of lines 392 to 401.\<close>

definition sql_top_bottom :: "string \<Rightarrow> string \<Rightarrow> string \<Rightarrow> string \<Rightarrow> string" where
  "sql_top_bottom label_expr where_sql group_expr order_sql =
       ''\<newline>''
     @ ''            SELECT ''
     @ label_expr
     @ '' AS label,\<newline>''
     @ ''                   SUM(s.revenue)::NUMERIC AS value\<newline>''
     @ ''            FROM sales s\<newline>''
     @ ''            JOIN products p ON p.id = s.product_id\<newline>''
     @ ''            ''
     @ where_sql
     @ ''\<newline>''
     @ ''            GROUP BY ''
     @ group_expr
     @ ''\<newline>''
     @ ''            ORDER BY value ''
     @ order_sql
     @ ''\<newline>''
     @ ''            LIMIT :limit\<newline>''
     @ ''        ''"

text \<open>The template of lines 418 to 426.\<close>

definition sql_breakdown :: "string \<Rightarrow> string \<Rightarrow> string" where
  "sql_breakdown label_expr group_expr =
       ''\<newline>''
     @ ''            SELECT ''
     @ label_expr
     @ '' AS label,\<newline>''
     @ ''                   SUM(s.revenue)::NUMERIC AS value\<newline>''
     @ ''            FROM sales s\<newline>''
     @ ''            JOIN products p ON p.id = s.product_id\<newline>''
     @ ''            WHERE s.year = :year\<newline>''
     @ ''            GROUP BY ''
     @ group_expr
     @ ''\<newline>''
     @ ''            ORDER BY value DESC\<newline>''
     @ ''        ''"

text \<open>The template of lines 452 to 465.\<close>

definition sql_growth :: "string \<Rightarrow> string \<Rightarrow> string" where
  "sql_growth join_sql where_sql =
       ''\<newline>''
     @ ''            WITH yearly AS (\<newline>''
     @ ''              SELECT s.year,\<newline>''
     @ ''                     SUM(s.revenue)::NUMERIC AS revenue\<newline>''
     @ ''              FROM sales s\<newline>''
     @ ''              ''
     @ join_sql
     @ ''\<newline>''
     @ ''              ''
     @ where_sql
     @ ''\<newline>''
     @ ''              GROUP BY s.year\<newline>''
     @ ''            )\<newline>''
     @ ''            SELECT y.year::TEXT AS label,\<newline>''
     @ ''                   (y.revenue - LAG(y.revenue) OVER (ORDER BY y.year))::NUMERIC AS value\<newline>''
     @ ''            FROM yearly y\<newline>''
     @ ''            ORDER BY y.year ASC\<newline>''
     @ ''        ''"

text \<open>The template of lines 488 to 502.\<close>

definition sql_multi_year_average :: "string \<Rightarrow> string \<Rightarrow> string" where
  "sql_multi_year_average join_sql extra_where =
       ''\<newline>''
     @ ''                WITH max_year AS (SELECT MAX(year) AS y FROM sales),\<newline>''
     @ ''                     yearly AS (\<newline>''
     @ ''                       SELECT s.year,\<newline>''
     @ ''                              SUM(s.revenue)::NUMERIC AS revenue\<newline>''
     @ ''                       FROM sales s\<newline>''
     @ ''                       ''
     @ join_sql
     @ ''\<newline>''
     @ ''                       WHERE s.year >= (SELECT y FROM max_year) - :year_count + 1\<newline>''
     @ ''                       ''
     @ extra_where
     @ ''\<newline>''
     @ ''                       GROUP BY s.year\<newline>''
     @ ''                     )\<newline>''
     @ ''                SELECT ''
     @ [CHR 0x27]
     @ ''avg''
     @ [CHR 0x27]
     @ ''::TEXT AS label,\<newline>''
     @ ''                       AVG(revenue)::NUMERIC AS value\<newline>''
     @ ''                FROM yearly\<newline>''
     @ ''            ''"

text \<open>The template of lines 505 to 515.\<close>

definition sql_multi_year :: "string \<Rightarrow> string \<Rightarrow> string" where
  "sql_multi_year join_sql extra_where =
       ''\<newline>''
     @ ''            WITH max_year AS (SELECT MAX(year) AS y FROM sales)\<newline>''
     @ ''            SELECT s.year::TEXT AS label,\<newline>''
     @ ''                   SUM(s.revenue)::NUMERIC AS value\<newline>''
     @ ''            FROM sales s\<newline>''
     @ ''            ''
     @ join_sql
     @ ''\<newline>''
     @ ''            WHERE s.year >= (SELECT y FROM max_year) - :year_count + 1\<newline>''
     @ ''            ''
     @ extra_where
     @ ''\<newline>''
     @ ''            GROUP BY s.year\<newline>''
     @ ''            ORDER BY s.year ASC\<newline>''
     @ ''        ''"

text \<open>The template of lines 531 to 539.\<close>

definition sql_revenue_by_category :: "string \<Rightarrow> string" where
  "sql_revenue_by_category where_sql =
       ''\<newline>''
     @ ''            SELECT p.category AS label,\<newline>''
     @ ''                   SUM(s.revenue)::NUMERIC AS value\<newline>''
     @ ''            FROM sales s\<newline>''
     @ ''            JOIN products p ON p.id = s.product_id\<newline>''
     @ ''            ''
     @ where_sql
     @ ''\<newline>''
     @ ''            GROUP BY p.category\<newline>''
     @ ''            ORDER BY value DESC\<newline>''
     @ ''        ''"

text \<open>The template of lines 554 to 563.\<close>

definition sql_top_products :: "string \<Rightarrow> string" where
  "sql_top_products where_sql =
       ''\<newline>''
     @ ''            SELECT p.name AS label,\<newline>''
     @ ''                   SUM(s.revenue)::NUMERIC AS value\<newline>''
     @ ''            FROM sales s\<newline>''
     @ ''            JOIN products p ON p.id = s.product_id\<newline>''
     @ ''            ''
     @ where_sql
     @ ''\<newline>''
     @ ''            GROUP BY p.name\<newline>''
     @ ''            ORDER BY value DESC\<newline>''
     @ ''            LIMIT :limit\<newline>''
     @ ''        ''"

text \<open>The query of \<open>clarification_required\<close>, line 520.\<close>

definition sql_clarification :: string where
  "sql_clarification = ''SELECT 1::TEXT AS label, 0::NUMERIC AS value WHERE FALSE''"

subsection \<open>Clauses and parameters\<close>

text \<open>
  Every branch of \<open>plan_intent\<close> builds the list \<open>where\<close> of condition texts and the
  dictionary \<open>params\<close> side by side, and some keep the flag \<open>join_products\<close>. The three
  variables are the state that the steps below update.
\<close>

record qstate =
  q_where :: "string list"
  q_params :: pydict
  q_join :: bool

text \<open>\<open>where.append(cond); params[key] = v\<close>, and \<open>join_products = True\<close>.\<close>

definition add_clause :: "string \<Rightarrow> string \<Rightarrow> pyval \<Rightarrow> qstate \<Rightarrow> qstate" where
  "add_clause cond key v st =
     st\<lparr>q_where := q_where st @ [cond], q_params := dict_set (q_params st) key v\<rparr>"

definition set_join :: "qstate \<Rightarrow> qstate" where
  "set_join st = st\<lparr>q_join := True\<rparr>"

text \<open>
  \<^verbatim>\<open>
  if isinstance(year_from, int):
      where.append("s.year >= :year_from")
      params["year_from"] = year_from
  if isinstance(year_to, int):
      where.append("s.year <= :year_to")
      params["year_to"] = year_to
  \<close>
\<close>

definition add_year_range :: "pydict \<Rightarrow> qstate \<Rightarrow> qstate" where
  "add_year_range filters st =
     (let year_from = dict_get filters ''year_from'';
          year_to = dict_get filters ''year_to'';
          st = (if is_int year_from
                then add_clause ''s.year >= :year_from'' ''year_from'' year_from st else st)
      in if is_int year_to
         then add_clause ''s.year <= :year_to'' ''year_to'' year_to st else st)"

text \<open>
  \<^verbatim>\<open>
  if isinstance(year, int):
      where.append("s.year = :year")
      params["year"] = year
  else:
      <the range, as above>
  \<close>
\<close>

definition add_year_or_range :: "pydict \<Rightarrow> qstate \<Rightarrow> qstate" where
  "add_year_or_range filters st =
     (let year = dict_get filters ''year''
      in if is_int year then add_clause ''s.year = :year'' ''year'' year st
         else add_year_range filters st)"

text \<open>
  \<^verbatim>\<open>
  if isinstance(product_id, int):
      where.append("s.product_id = :product_id")
      params["product_id"] = product_id
  \<close>
\<close>

definition add_product_id :: "pydict \<Rightarrow> qstate \<Rightarrow> qstate" where
  "add_product_id filters st =
     (let product_id = dict_get filters ''product_id''
      in if is_int product_id
         then add_clause ''s.product_id = :product_id'' ''product_id'' product_id st else st)"

text \<open>
  \<^verbatim>\<open>
  if isinstance(category, str) and category.strip():
      join_products = True
      where.append("lower(p.category) = lower(:category)")
      params["category"] = category.strip()
  \<close>
  \<open>sales_by_product\<close> has the same step without the flag.
\<close>

definition category_clause :: "string \<Rightarrow> qstate \<Rightarrow> qstate" where
  "category_clause c st =
     add_clause ''lower(p.category) = lower(:category)'' ''category'' (PStr c) st"

definition add_category :: "pydict \<Rightarrow> qstate \<Rightarrow> qstate" where
  "add_category filters st =
     (case nonblank (dict_get filters ''category'') of
        Some c \<Rightarrow> category_clause c (set_join st)
      | None \<Rightarrow> st)"

text \<open>
  \<^verbatim>\<open>
  if isinstance(product_name, str) and product_name.strip():
      join_products = True
      name = product_name.strip()
      if "%" not in name:
          name = f"%{name}%"
      where.append("p.name ILIKE :product_name")
      params["product_name"] = name
  \<close>
\<close>

definition like_pattern :: "string \<Rightarrow> string" where
  "like_pattern name = (if CHR ''%'' \<notin> set name then ''%'' @ name @ ''%'' else name)"

definition product_name_clause :: "string \<Rightarrow> qstate \<Rightarrow> qstate" where
  "product_name_clause name st =
     add_clause ''p.name ILIKE :product_name'' ''product_name'' (PStr (like_pattern name)) st"

definition add_product_name :: "pydict \<Rightarrow> qstate \<Rightarrow> qstate" where
  "add_product_name filters st =
     (case nonblank (dict_get filters ''product_name'') of
        Some name \<Rightarrow> product_name_clause name (set_join st)
      | None \<Rightarrow> st)"

text \<open>
  \<^verbatim>\<open>
  where_sql = ("WHERE " + " AND ".join(where)) if where else ""
  join_sql = "JOIN products p ON p.id = s.product_id" if join_products else ""
  \<close>
\<close>

definition where_sql :: "qstate \<Rightarrow> string" where
  "where_sql st = (if q_where st = [] then [] else ''WHERE '' @ py_join '' AND '' (q_where st))"

definition join_sql :: "qstate \<Rightarrow> string" where
  "join_sql st = (if q_join st then ''JOIN products p ON p.id = s.product_id'' else [])"

text \<open>The plan returned: every branch names the columns \<open>label\<close> and \<open>value\<close>.\<close>

definition planned :: "string \<Rightarrow> pydict \<Rightarrow> string \<Rightarrow> PlannedQuery" where
  "planned q ps chart =
     \<lparr>sql = q, params = ps, chart_type = chart, label_field = ''label'',
      value_field = ''value'', series_field = None\<rparr>"

text \<open>
  \<open>if not isinstance(n, int) or n <= 0 or n > hi: n = dflt\<close>, the guard of \<open>limit\<close> and of
  \<open>year_count\<close>.
\<close>

definition in_range_or :: "int \<Rightarrow> int \<Rightarrow> pyval \<Rightarrow> pyval" where
  "in_range_or hi dflt n =
     (if \<not> is_int n \<or> int_val n \<le> 0 \<or> int_val n > hi then PInt dflt else n)"

subsection \<open>The branches\<close>

text \<open>
  \<open>sales_trend\<close>, \<open>sales_comparison\<close> and \<open>sales_trend_over_time\<close>, lines 56 to 119. A
  list \<open>years\<close> that is not empty takes the place of the range; a category that is not
  blank takes the place of the list \<open>categories\<close>, whose items are stripped and
  lowercased, the blank ones dropped; an item that cannot be printed raises its error:
  \<^verbatim>\<open>
  elif isinstance(categories, list) and categories:
      cleaned = [str(c).strip().lower() for c in categories if str(c).strip()]
      if cleaned:
          join_products = True
          where.append("lower(p.category) = ANY(:categories)")
          params["categories"] = cleaned
  \<close>
\<close>

fun clean_categories :: "(pyval \<Rightarrow> pyerror + string) \<Rightarrow> pyval list \<Rightarrow> pyerror + string list" where
  "clean_categories repr_of [] = Inr []"
| "clean_categories repr_of (c # cs) =
     (case py_str repr_of c of
        Inl e \<Rightarrow> Inl e
      | Inr s \<Rightarrow>
          (case clean_categories repr_of cs of
             Inl e \<Rightarrow> Inl e
           | Inr rest \<Rightarrow>
               Inr (if py_strip s \<noteq> [] then py_lower (py_strip s) # rest else rest)))"

definition add_categories :: "(pyval \<Rightarrow> pyerror + string) \<Rightarrow> pydict \<Rightarrow> qstate \<Rightarrow> pyerror + qstate" where
  "add_categories repr_of filters st =
     (let categories = dict_get filters ''categories''
      in if is_list categories \<and> truthy categories then
           (case clean_categories repr_of (items categories) of
              Inl e \<Rightarrow> Inl e
            | Inr cleaned \<Rightarrow>
                if cleaned \<noteq> []
                then Inr (add_clause ''lower(p.category) = ANY(:categories)'' ''categories''
                            (PList (map PStr cleaned)) (set_join st))
                else Inr st)
         else Inr st)"

definition plan_trend :: "(pyval \<Rightarrow> pyerror + string) \<Rightarrow> pydict \<Rightarrow> string \<Rightarrow> pyerror + PlannedQuery" where
  "plan_trend repr_of filters chart =
     (let years = dict_get filters ''years'';
          category = dict_get filters ''category'';
          categories = dict_get filters ''categories'';
          product_name = dict_get filters ''product_name'';
          st = \<lparr>q_where = [], q_params = [],
                q_join = truthy (py_or (py_or category categories) product_name)\<rparr>;
          st = (if is_list years \<and> truthy years
                then add_clause ''s.year = ANY(:years)'' ''years'' years st
                else add_year_range filters st);
          st = add_product_id filters st
      in case (case nonblank category of
                 Some c \<Rightarrow> Inr (category_clause c (set_join st))
               | None \<Rightarrow> add_categories repr_of filters st) of
           Inl e \<Rightarrow> Inl e
         | Inr st \<Rightarrow>
             (let st = add_product_name filters st
              in Inr (planned (sql_trend (join_sql st) (where_sql st)) (q_params st) chart)))"

text \<open>
  \<open>sales_comparison_by_year\<close>, lines 121 to 176. Without a list of years, the two ends of
  the range that are integers become the list \<open>sorted(set(yr_list))\<close>: equal numbers are
  one element (the first given stays), and the order is by number.
\<close>

fun dedup :: "pyval list \<Rightarrow> pyval list" where
  "dedup [] = []"
| "dedup (x # xs) = x # dedup (filter (\<lambda>y. int_val y \<noteq> int_val x) xs)"

definition sorted_set :: "pyval list \<Rightarrow> pyval list" where
  "sorted_set xs = sort_key int_val (dedup xs)"

definition plan_comparison_by_year :: "pydict \<Rightarrow> string \<Rightarrow> PlannedQuery" where
  "plan_comparison_by_year filters chart =
     (let years = dict_get filters ''years'';
          year_from = dict_get filters ''year_from'';
          year_to = dict_get filters ''year_to'';
          category = dict_get filters ''category'';
          product_name = dict_get filters ''product_name'';
          st = \<lparr>q_where = [], q_params = [], q_join = truthy (py_or category product_name)\<rparr>;
          st = (if is_list years \<and> truthy years
                then add_clause ''s.year = ANY(:years)'' ''years'' years st
                else (let yr_list = (if is_int year_from then [year_from] else [])
                                    @ (if is_int year_to then [year_to] else []);
                          yr_list = sorted_set yr_list
                      in if yr_list \<noteq> []
                         then add_clause ''s.year = ANY(:years)'' ''years'' (PList yr_list) st
                         else st));
          st = add_product_id filters st;
          st = add_category filters st;
          st = add_product_name filters st
      in planned (sql_comparison_by_year (join_sql st) (where_sql st)) (q_params st) chart)"

text \<open>
  \<open>total_sales_for_period\<close>, lines 178 to 234. The label is the year, or the range when
  both ends are integers, or \<open>total\<close>; it is bound last, as the parameter \<open>label\<close>.
  Printing the year is the only step of this branch that can fail.
\<close>

definition period_label :: "(pyval \<Rightarrow> pyerror + string) \<Rightarrow> pydict \<Rightarrow> pyerror + string" where
  "period_label repr_of filters =
     (let year = dict_get filters ''year'';
          year_from = dict_get filters ''year_from'';
          year_to = dict_get filters ''year_to''
      in if is_int year then py_str repr_of year
         else if is_int year_from \<and> is_int year_to
              then (case py_str repr_of year_from of
                      Inl e \<Rightarrow> Inl e
                    | Inr a \<Rightarrow>
                        (case py_str repr_of year_to of
                           Inl e \<Rightarrow> Inl e
                         | Inr b \<Rightarrow> Inr (a @ ''-'' @ b)))
              else Inr ''total'')"

definition plan_total :: "(pyval \<Rightarrow> pyerror + string) \<Rightarrow> pydict \<Rightarrow> string \<Rightarrow> pyerror + PlannedQuery" where
  "plan_total repr_of filters chart =
     (case period_label repr_of filters of
        Inl e \<Rightarrow> Inl e
      | Inr lbl \<Rightarrow>
          (let category = dict_get filters ''category'';
               product_name = dict_get filters ''product_name'';
               st = \<lparr>q_where = [], q_params = [],
                     q_join = truthy (py_or category product_name)\<rparr>;
               st = add_year_or_range filters st;
               st = add_product_id filters st;
               st = add_category filters st;
               st = add_product_name filters st
           in Inr (planned (sql_total (join_sql st) (where_sql st))
                     (dict_set (q_params st) ''label'' (PStr lbl)) chart)))"

text \<open>\<open>sales_by_product\<close>, lines 236 to 275: the products are always joined.\<close>

definition plan_by_product :: "pydict \<Rightarrow> string \<Rightarrow> PlannedQuery" where
  "plan_by_product filters chart =
     (let limit = in_range_or 100 20 (dict_get filters ''limit'');
          st = \<lparr>q_where = [], q_params = [(''limit'', limit)], q_join = True\<rparr>;
          st = add_year_or_range filters st;
          st = (case nonblank (dict_get filters ''category'') of
                  Some c \<Rightarrow> category_clause c st
                | None \<Rightarrow> st)
      in planned (sql_by_product (where_sql st)) (q_params st) chart)"

text \<open>
  \<open>product_sales_trend\<close>, lines 277 to 315: the product is given by an integer
  \<open>product_id\<close>, or else by a \<open>product_name\<close> that is not blank, or else the plan fails.
\<close>

definition plan_product_trend :: "pydict \<Rightarrow> string \<Rightarrow> pyerror + PlannedQuery" where
  "plan_product_trend filters chart =
     (let product_id = dict_get filters ''product_id'';
          product_name = dict_get filters ''product_name'';
          st = \<lparr>q_where = [], q_params = [], q_join = True\<rparr>;
          st = add_year_range filters st
      in if is_int product_id then
           (let st = add_clause ''s.product_id = :product_id'' ''product_id'' product_id st
            in Inr (planned (sql_product_trend (where_sql st)) (q_params st) chart))
         else
           (case nonblank product_name of
              Some name \<Rightarrow>
                (let st = product_name_clause name st
                 in Inr (planned (sql_product_trend (where_sql st)) (q_params st) chart))
            | None \<Rightarrow>
                Inl (QueryPlannerError
                       ''product_sales_trend requires product_id or product_name'')))"

text \<open>\<open>sales_by_category\<close>, lines 317 to 347.\<close>

definition plan_by_category :: "pydict \<Rightarrow> string \<Rightarrow> PlannedQuery" where
  "plan_by_category filters chart =
     (let st = \<lparr>q_where = [], q_params = [], q_join = True\<rparr>;
          st = add_year_or_range filters st
      in planned (sql_by_category (where_sql st)) (q_params st) chart)"

text \<open>
  \<open>top_bottom_performers\<close>, lines 349 to 402. An \<open>entity\<close> that is neither \<open>product\<close> nor
  \<open>category\<close> is replaced by \<open>dim0\<close> when that is one of the two, else by \<open>product\<close>; an
  \<open>order\<close> that is neither \<open>top\<close> nor \<open>bottom\<close> is \<open>top\<close>.
\<close>

definition plan_top_bottom :: "pydict \<Rightarrow> string \<Rightarrow> pyval \<Rightarrow> PlannedQuery" where
  "plan_top_bottom filters chart dim0 =
     (let entity = dict_get filters ''entity'';
          order = dict_get filters ''order'';
          entity = (if entity \<noteq> PStr ''product'' \<and> entity \<noteq> PStr ''category''
                    then (if dim0 = PStr ''product'' \<or> dim0 = PStr ''category''
                          then dim0 else PStr ''product'')
                    else entity);
          order = (if order \<noteq> PStr ''top'' \<and> order \<noteq> PStr ''bottom''
                   then PStr ''top'' else order);
          limit = in_range_or 50 5 (dict_get filters ''limit'');
          st = \<lparr>q_where = [], q_params = [(''limit'', limit)], q_join = True\<rparr>;
          st = add_year_or_range filters st;
          label_expr = (if entity = PStr ''category'' then ''p.category'' else ''p.name'');
          group_expr = (if entity = PStr ''category'' then ''p.category'' else ''p.name'');
          order_sql = (if order = PStr ''top'' then ''DESC'' else ''ASC'')
      in planned (sql_top_bottom label_expr (where_sql st) group_expr order_sql)
           (q_params st) chart)"

text \<open>\<open>sales_breakdown_for_year\<close>, lines 404 to 427: the year is required.\<close>

definition plan_breakdown :: "pydict \<Rightarrow> string \<Rightarrow> pyval \<Rightarrow> pyerror + PlannedQuery" where
  "plan_breakdown filters chart dim0 =
     (let year = dict_get filters ''year''
      in if \<not> is_int year then
           Inl (QueryPlannerError ''sales_breakdown_for_year requires filter.year'')
         else
           (let label_expr = (if dim0 = PStr ''category'' then ''p.category'' else ''p.name'');
                group_expr = (if dim0 = PStr ''category'' then ''p.category'' else ''p.name'')
            in Inr (planned (sql_breakdown label_expr group_expr) [(''year'', year)] chart)))"

text \<open>\<open>sales_growth_analysis\<close>, lines 429 to 466.\<close>

definition plan_growth :: "pydict \<Rightarrow> string \<Rightarrow> PlannedQuery" where
  "plan_growth filters chart =
     (let category = dict_get filters ''category'';
          st = \<lparr>q_where = [], q_params = [], q_join = truthy category\<rparr>;
          st = add_year_range filters st;
          st = add_category filters st
      in planned (sql_growth (join_sql st) (where_sql st)) (q_params st) chart)"

text \<open>
  \<open>multi_year_comparison\<close>, lines 468 to 516: a window of \<open>year_count\<close> years, averaged
  when \<open>average\<close> is true; the category condition is the text \<open>extra_where\<close>.
\<close>

definition plan_multi_year :: "pydict \<Rightarrow> string \<Rightarrow> PlannedQuery" where
  "plan_multi_year filters chart =
     (let year_count = in_range_or 20 3 (dict_get filters ''year_count'');
          average = dict_get filters ''average'';
          category = dict_get filters ''category'';
          ps = [(''year_count'', year_count)];
          join_products = truthy category;
          (join_products, extra_where, ps) =
             (case nonblank category of
                Some c \<Rightarrow> (True, ''AND lower(p.category) = lower(:category)'',
                           dict_set ps ''category'' (PStr c))
              | None \<Rightarrow> (join_products, [], ps));
          join = (if join_products then ''JOIN products p ON p.id = s.product_id'' else [])
      in if truthy average
         then planned (sql_multi_year_average join extra_where) ps chart
         else planned (sql_multi_year join extra_where) ps chart)"

text \<open>\<open>clarification_required\<close>, lines 518 to 521: a query without rows.\<close>

definition plan_clarification :: "string \<Rightarrow> PlannedQuery" where
  "plan_clarification chart = planned sql_clarification [] chart"

text \<open>\<open>revenue_by_category\<close> and \<open>top_products\<close>, lines 523 to 564.\<close>

definition plan_revenue_by_category :: "pydict \<Rightarrow> string \<Rightarrow> PlannedQuery" where
  "plan_revenue_by_category filters chart =
     (let year = dict_get filters ''year''
      in if is_int year
         then planned (sql_revenue_by_category ''WHERE s.year = :year'') [(''year'', year)] chart
         else planned (sql_revenue_by_category []) [] chart)"

definition plan_top_products :: "pydict \<Rightarrow> string \<Rightarrow> PlannedQuery" where
  "plan_top_products filters chart =
     (let year = dict_get filters ''year'';
          limit = in_range_or 50 10 (dict_get filters ''limit'')
      in if is_int year
         then planned (sql_top_products ''WHERE s.year = :year'')
                (dict_set [(''limit'', limit)] ''year'' year) chart
         else planned (sql_top_products []) [(''limit'', limit)] chart)"

subsection \<open>\<open>plan_intent\<close>\<close>

text \<open>The branch is chosen by the intent name, in the order of the source.\<close>

definition plan_branch :: "(pyval \<Rightarrow> pyerror + string) \<Rightarrow> validated \<Rightarrow> pyerror + PlannedQuery" where
  "plan_branch repr_of v =
     (let intent_name = v_intent v; filters = v_filters v; chart = v_chart v; dim0 = v_dim0 v
      in if intent_name \<in> {''sales_trend'', ''sales_comparison'', ''sales_trend_over_time''}
           then plan_trend repr_of filters chart
         else if intent_name = ''sales_comparison_by_year''
           then Inr (plan_comparison_by_year filters chart)
         else if intent_name = ''total_sales_for_period'' then plan_total repr_of filters chart
         else if intent_name = ''sales_by_product'' then Inr (plan_by_product filters chart)
         else if intent_name = ''product_sales_trend'' then plan_product_trend filters chart
         else if intent_name = ''sales_by_category'' then Inr (plan_by_category filters chart)
         else if intent_name = ''top_bottom_performers''
           then Inr (plan_top_bottom filters chart dim0)
         else if intent_name = ''sales_breakdown_for_year''
           then plan_breakdown filters chart dim0
         else if intent_name = ''sales_growth_analysis'' then Inr (plan_growth filters chart)
         else if intent_name = ''multi_year_comparison''
           then Inr (plan_multi_year filters chart)
         else if intent_name = ''clarification_required'' then Inr (plan_clarification chart)
         else if intent_name = ''revenue_by_category''
           then Inr (plan_revenue_by_category filters chart)
         else if intent_name = ''top_products'' then Inr (plan_top_products filters chart)
         else Inl (QueryPlannerError (''No planner mapping for intent: '' @ intent_name)))"

definition plan_intent :: "(string set \<Rightarrow> string) \<Rightarrow> (pyval \<Rightarrow> pyerror + string) \<Rightarrow> pydict
                            \<Rightarrow> pyerror + PlannedQuery" where
  "plan_intent first_of repr_of intent_payload =
     (case validate first_of repr_of intent_payload of
        Inl e \<Rightarrow> Inl e
      | Inr v \<Rightarrow> plan_branch repr_of v)"

section \<open>The response\<close>

subsection \<open>Numbers of the result rows\<close>

text \<open>
  A Python \<open>float\<close> is an IEEE double: a sign, and either a magnitude \<open>m * 2 ^ e\<close> with
  \<open>m\<close> below \<open>2 ^ 53\<close>, or infinity; or it is not a number.
\<close>

datatype pyfloat = Finite bool nat int | Infinite bool | NaN

definition float_zero :: pyfloat where
  "float_zero = Finite False 0 0"

fun bitlen :: "nat \<Rightarrow> nat" where
  "bitlen n = (if n = 0 then 0 else Suc (bitlen (n div 2)))"

declare bitlen.simps [simp del]

text \<open>
  \<open>float(n)\<close> for an integer: an integer of at most 53 bits is exact; a longer one keeps
  its 53 leading bits, rounded to nearest with ties to the even neighbour; when the
  rounded magnitude reaches \<open>2 ^ 1024\<close> Python raises \<open>OverflowError\<close>.
\<close>

definition round53 :: "nat \<Rightarrow> nat \<times> nat" where
  "round53 a =
     (let k = bitlen a
      in if k \<le> 53 then (a, 0)
         else (let sh = k - 53; q = a div 2 ^ sh; r = a mod 2 ^ sh; half = 2 ^ (sh - 1)
               in (if r > half \<or> (r = half \<and> odd q) then q + 1 else q, sh)))"

definition float_of_int :: "int \<Rightarrow> pyerror + pyfloat" where
  "float_of_int n =
     (let (m, sh) = round53 (nat \<bar>n\<bar>)
      in if m * 2 ^ sh \<ge> 2 ^ 1024
         then Inl (OverflowError ''int too large to convert to float'')
         else Inr (Finite (n < 0) m (int sh)))"

text \<open>
  A \<open>Decimal\<close> is a sign with a coefficient and a decimal exponent, an infinity, or a
  quiet or a signaling NaN. \<open>float(d)\<close> raises \<open>ValueError\<close> for a signaling NaN and
  otherwise gives the double nearest to the number (infinity beyond the range of the
  doubles, and the subnormal numbers down to \<open>2 ^ -1074\<close>).
\<close>

datatype decimal = DecFinite bool nat int | DecInfinite bool | DecNaN | DecSNaN

text \<open>The double nearest to \<open>p / q\<close>, for \<open>p\<close> and \<open>q\<close> above zero: mantissa and exponent.\<close>

definition round_ratio :: "nat \<Rightarrow> nat \<Rightarrow> nat \<times> int" where
  "round_ratio p q =
     (let k = int (bitlen p) - int (bitlen q);
          lg = (if (if k \<ge> 0 then p \<ge> q * 2 ^ nat k else p * 2 ^ nat (- k) \<ge> q)
                then k else k - 1);
          e = max (lg - 52) (- 1074);
          num = (if e \<ge> 0 then p else p * 2 ^ nat (- e));
          den = (if e \<ge> 0 then q * 2 ^ nat e else q);
          m = num div den;
          r = num mod den
      in (if 2 * r > den \<or> (2 * r = den \<and> odd m) then m + 1 else m, e))"

definition float_of_decimal :: "decimal \<Rightarrow> pyerror + pyfloat" where
  "float_of_decimal d =
     (case d of
        DecSNaN \<Rightarrow> Inl (ValueError ''cannot convert signaling NaN to float'')
      | DecNaN \<Rightarrow> Inr NaN
      | DecInfinite s \<Rightarrow> Inr (Infinite s)
      | DecFinite s c e \<Rightarrow>
          if c = 0 then Inr (Finite s 0 0)
          else (let (m, b) = (if e \<ge> 0 then round_ratio (c * 10 ^ nat e) 1
                              else round_ratio c (10 ^ nat (- e)))
                in if b \<ge> 0 \<and> m * 2 ^ nat b \<ge> 2 ^ 1024 then Inr (Infinite s)
                   else Inr (Finite s m b)))"

text \<open>
  The value of a column of a result row: \<open>None\<close>, a boolean, an integer, a float, a
  \<open>Decimal\<close>, or a value of any other type, which is given by what \<open>float\<close> does with it
  (a float, or an exception).
\<close>

datatype dbval =
    VNone
  | VBool bool
  | VInt int
  | VFloat pyfloat
  | VDecimal decimal
  | VOther "pyerror + pyfloat"

text \<open>
  \<^verbatim>\<open>
  def _to_float(v):
      if v is None:
          return 0.0
      if isinstance(v, float):
          return v
      if isinstance(v, int):
          return float(v)
      if isinstance(v, Decimal):
          return float(v)
      try:
          return float(v)
      except Exception:
          return 0.0
  \<close>
  A boolean is an \<open>int\<close>. Only the last conversion stands in a \<open>try\<close>.
\<close>

definition to_float :: "dbval \<Rightarrow> pyerror + pyfloat" where
  "to_float v =
     (case v of
        VNone \<Rightarrow> Inr float_zero
      | VFloat x \<Rightarrow> Inr x
      | VBool b \<Rightarrow> float_of_int (if b then 1 else 0)
      | VInt n \<Rightarrow> float_of_int n
      | VDecimal d \<Rightarrow> float_of_decimal d
      | VOther r \<Rightarrow> (case r of Inr x \<Rightarrow> Inr x | Inl _ \<Rightarrow> Inr float_zero))"

subsection \<open>Assembling the chart\<close>

record Dataset =
  label :: string
  data :: "pyfloat list"

record QueryResponse =
  title :: "string option"
  chartType :: string
  labels :: "string list"
  datasets :: "Dataset list"

text \<open>
  The end of the route \<open>query\<close>, lines 163 to 182 of \<open>routes.py\<close>, after the database has
  returned the rows (a row maps a column name to a value):
  \<^verbatim>\<open>
  for r in rows:
      labels.append(str(r.get(plan.label_field)))
      values.append(_to_float(r.get(plan.value_field)))
  title = _derive_title(intent)
  if not labels:
      return QueryResponse(title=title, chartType=plan.chart_type, labels=[], datasets=[])
  return QueryResponse(title=title, chartType=plan.chart_type, labels=labels,
                       datasets=[{"label": "total_revenue", "data": values}])
  \<close>
  The title and Python's \<open>str\<close> on the values of the label column are parameters.
\<close>

type_synonym row = "(string \<times> dbval) list"

definition row_get :: "row \<Rightarrow> string \<Rightarrow> dbval" where
  "row_get r k = (case map_of r k of None \<Rightarrow> VNone | Some v \<Rightarrow> v)"

fun collect :: "(dbval \<Rightarrow> string) \<Rightarrow> PlannedQuery \<Rightarrow> row list
                  \<Rightarrow> pyerror + (string list \<times> pyfloat list)" where
  "collect str_of plan [] = Inr ([], [])"
| "collect str_of plan (r # rows) =
     (case to_float (row_get r (value_field plan)) of
        Inl e \<Rightarrow> Inl e
      | Inr x \<Rightarrow>
          (case collect str_of plan rows of
             Inl e \<Rightarrow> Inl e
           | Inr (ls, xs) \<Rightarrow> Inr (str_of (row_get r (label_field plan)) # ls, x # xs)))"

definition assemble :: "(dbval \<Rightarrow> string) \<Rightarrow> string \<Rightarrow> PlannedQuery \<Rightarrow> row list
                          \<Rightarrow> pyerror + QueryResponse" where
  "assemble str_of the_title plan rows =
     (case collect str_of plan rows of
        Inl e \<Rightarrow> Inl e
      | Inr (ls, xs) \<Rightarrow>
          if ls = [] then
            Inr \<lparr>title = Some the_title, chartType = chart_type plan, labels = [],
                 datasets = []\<rparr>
          else
            Inr \<lparr>title = Some the_title, chartType = chart_type plan, labels = ls,
                 datasets = [\<lparr>label = ''total_revenue'', data = xs\<rparr>]\<rparr>)"

text \<open>
  One order in which a process may list a set of dimensions (see \<open>first_of\<close> above);
  like \<open>repr_cpython\<close>, it serves where a plan is computed for a concrete payload.
\<close>

definition listed_first :: "string set \<Rightarrow> string" where
  "listed_first s =
     (if ''product'' \<in> s then ''product'' else if ''category'' \<in> s then ''category'' else ''year'')"

text \<open>The filters of a payload, \<open>intent_payload.get("filters") or {}\<close>, when that is a dictionary.\<close>

definition payload_filters :: "pydict \<Rightarrow> pydict" where
  "payload_filters p =
     (case py_or (dict_get p ''filters'') (PDict []) of PDict d \<Rightarrow> d | _ \<Rightarrow> [])"

text \<open>
  What the head of \<open>plan_intent\<close> checks, as a predicate: the intent is a key of the
  catalog, metrics and dimensions (an absent or empty value counts as the empty list)
  are lists of strings allowed for that intent, and the filters are a dictionary.
\<close>

definition valid_payload :: "pydict \<Rightarrow> bool" where
  "valid_payload p =
     (case dict_get p ''intent'' of
        PStr s \<Rightarrow>
          (case map_of INTENTS s of
             None \<Rightarrow> False
           | Some spec \<Rightarrow>
               is_list (py_or (dict_get p ''metrics'') (PList []))
               \<and> is_list (py_or (dict_get p ''dimensions'') (PList []))
               \<and> is_dict (py_or (dict_get p ''filters'') (PDict []))
               \<and> list_all (\<lambda>m. m \<in> PStr ` allowed_metrics spec)
                     (items (py_or (dict_get p ''metrics'') (PList [])))
               \<and> list_all (\<lambda>d. d \<in> PStr ` allowed_dimensions spec)
                     (items (py_or (dict_get p ''dimensions'') (PList []))))
      | _ \<Rightarrow> False)"

section \<open>The payloads of the rule-based extractor\<close>

text \<open>
  The pairs of intent and dimension in the dictionaries that \<open>_stub_parse\<close> returns, one
  for each \<open>return\<close> of the source (the entity or the dimension of a rule is \<open>product\<close>
  or \<open>category\<close>), and the payloads that have one of them.
\<close>

definition stub_shapes :: "(string \<times> string) set" where
  "stub_shapes =
     {(''sales_by_category'', ''category''),
      (''top_bottom_performers'', ''product''), (''top_bottom_performers'', ''category''),
      (''sales_breakdown_for_year'', ''product''), (''sales_breakdown_for_year'', ''category''),
      (''product_sales_trend'', ''year''), (''sales_growth_analysis'', ''year''),
      (''sales_trend_over_time'', ''year''), (''sales_comparison_by_year'', ''year''),
      (''multi_year_comparison'', ''year''), (''total_sales_for_period'', ''year''),
      (''sales_by_product'', ''product''), (''clarification_required'', ''year'')}"

definition shaped :: "pydict \<Rightarrow> bool" where
  "shaped r = (\<exists>i d fs c. r = payload i d fs c \<and> (i, d) \<in> stub_shapes)"

section \<open>Facts about the string functions\<close>

lemma py_in_sublist: "py_in sub s = sublist sub s"
  by (induction s) (auto simp: sublist_Cons_right py_in.simps)

lemma first_year_Some:
  "first_year txt ys = Some y \<longleftrightarrow>
     (\<exists>pre post. ys = pre @ y # post \<and> py_in (str_int y) txt
        \<and> (\<forall>z \<in> set pre. \<not> py_in (str_int z) txt))"
proof (induction ys)
  case Nil
  show ?case by simp
next
  case (Cons a ys)
  show ?case
  proof (cases "py_in (str_int a) txt")
    case True
    have "(\<exists>pre post. a # ys = pre @ y # post \<and> py_in (str_int y) txt
        \<and> (\<forall>z \<in> set pre. \<not> py_in (str_int z) txt)) \<longleftrightarrow> a = y"
    proof
      assume "\<exists>pre post. a # ys = pre @ y # post \<and> py_in (str_int y) txt
        \<and> (\<forall>z \<in> set pre. \<not> py_in (str_int z) txt)"
      then obtain pre post where h: "a # ys = pre @ y # post"
        "\<forall>z \<in> set pre. \<not> py_in (str_int z) txt" by blast
      show "a = y"
      proof (cases pre)
        case Nil
        with h show ?thesis by simp
      next
        case (Cons b pre')
        with h True show ?thesis by auto
      qed
    next
      assume "a = y"
      with True have "a # ys = [] @ y # ys \<and> py_in (str_int y) txt
        \<and> (\<forall>z \<in> set []. \<not> py_in (str_int z) txt)" by simp
      then show "\<exists>pre post. a # ys = pre @ y # post \<and> py_in (str_int y) txt
        \<and> (\<forall>z \<in> set pre. \<not> py_in (str_int z) txt)" by blast
    qed
    with True show ?thesis by auto
  next
    case False
    have "(\<exists>pre post. a # ys = pre @ y # post \<and> py_in (str_int y) txt
        \<and> (\<forall>z \<in> set pre. \<not> py_in (str_int z) txt)) \<longleftrightarrow>
      (\<exists>pre post. ys = pre @ y # post \<and> py_in (str_int y) txt
        \<and> (\<forall>z \<in> set pre. \<not> py_in (str_int z) txt))" (is "?L \<longleftrightarrow> ?R")
    proof
      assume ?L
      then obtain pre post where h: "a # ys = pre @ y # post" "py_in (str_int y) txt"
        "\<forall>z \<in> set pre. \<not> py_in (str_int z) txt" by blast
      show ?R
      proof (cases pre)
        case Nil
        with h False show ?thesis by simp
      next
        case (Cons b pre')
        with h have "ys = pre' @ y # post" "\<forall>z \<in> set pre'. \<not> py_in (str_int z) txt" by auto
        with h(2) show ?thesis by blast
      qed
    next
      assume ?R
      then obtain pre post where h: "ys = pre @ y # post" "py_in (str_int y) txt"
        "\<forall>z \<in> set pre. \<not> py_in (str_int z) txt" by blast
      with False have "a # ys = (a # pre) @ y # post \<and> py_in (str_int y) txt
        \<and> (\<forall>z \<in> set (a # pre). \<not> py_in (str_int z) txt)" by simp
      then show ?L by blast
    qed
    with False Cons.IH show ?thesis by simp
  qed
qed

lemma first_year_None:
  "first_year txt ys = None \<longleftrightarrow> (\<forall>z \<in> set ys. \<not> py_in (str_int z) txt)"
  by (induction ys) auto

lemma upto_split_at:
  "[i..j] = pre @ y # post \<Longrightarrow> i \<le> y \<and> y \<le> j \<and> set pre = {i..<y}"
proof -
  assume h: "[i..j] = pre @ y # post"
  have y: "y \<in> set [i..j]" using h by simp
  then have iy: "i \<le> y" "y \<le> j" by simp_all
  have "[i..j] = [i..y - 1] @ y # [y + 1..j]"
    using iy by (simp add: upto_split3)
  moreover have "distinct [i..j]" by simp
  ultimately have "pre = [i..y - 1]"
    using h
    by (metis append_Cons_eq_iff distinct_append distinct.simps(2) in_set_conv_decomp y
        not_distinct_conv_prefix)
  then show ?thesis using iy by auto
qed

section \<open>Evaluating the extractor on a text\<close>

text \<open>The definitions unfolded when a function is computed on a concrete text.\<close>

lemmas chr_defs = lower_char_def upper_char_def is_upper_def is_lower_def
  py_isspace_def is_digit_def is_word_def

lemmas str_defs = py_lower_def py_strip_def py_strip_chars_def strip_with_def
  py_split_def capitalize_def digit_val_def int_of_digits_def py_int_def
  py_in.simps split_ws.simps

lemmas rx_defs = re_search_def advance_def at_boundary_def cat_cls_def
  rx_in_the_category_def rx_in_category_def rx_category_is_def rx_year_def
  rx_range_dash_def rx_range_to_def rx_range_between_def rx_from_def rx_to_def
  rx_top_n_def rx_quoted_def first_group_def two_groups_def
  rx_match.simps search_from.simps

lemma year_strs:
  "str_int 2015 = ''2015''" "str_int 2016 = ''2016''" "str_int 2017 = ''2017''"
  "str_int 2018 = ''2018''" "str_int 2019 = ''2019''" "str_int 2020 = ''2020''"
  "str_int 2021 = ''2021''" "str_int 2022 = ''2022''" "str_int 2023 = ''2023''"
  "str_int 2024 = ''2024''" "str_int 2025 = ''2025''" "str_int 2026 = ''2026''"
  "str_int 2027 = ''2027''" "str_int 2028 = ''2028''" "str_int 2029 = ''2029''"
  "str_int 2030 = ''2030''"
  by (simp_all add: str_int_def digits.simps digit_char_def)

text \<open>
  The text \<open>revenue in 2022\<close> names no category, no ranking, no breakdown, no range, no
  second year and none of the later key phrases: only the default rule is left, and the
  default rule does not look for a year.
\<close>

lemma stub_parse_revenue_in_2022:
  "stub_parse ''revenue in 2022'' = payload ''sales_trend_over_time'' ''year'' [] ''line''"
  (is "stub_parse ?Q = ?P")
proof -
  have q: "py_lower ?Q = ?Q" by (simp add: py_lower_def chr_defs)
  have cat: "extract_category ?Q = None"
    by (simp add: extract_category_def chr_defs str_defs rx_defs)
  have k1: "\<not> any_in [''by category'', ''per category'', ''group by category'',
                 ''grouped by category'', ''breakdown by category''] ?Q"
    by (simp add: any_in_def py_in.simps)
  have k2: "\<not> py_in ''top'' ?Q" "\<not> py_in ''best-selling'' ?Q" "\<not> py_in ''best selling'' ?Q"
    by (simp_all add: py_in.simps)
  have k3: "\<not> any_in [''worst'', ''lowest'', ''bottom''] ?Q"
    by (simp add: any_in_def py_in.simps)
  have k4: "\<not> any_in [''break down'', ''breakdown'', ''category-wise'', ''category wise''] ?Q"
    by (simp add: any_in_def py_in.simps)
  have rng: "extract_year_range ?Q = (None, None)"
    by (simp add: extract_year_range_def chr_defs str_defs rx_defs)
  have two: "extract_two_years ?Q = None"
    by (simp add: extract_two_years_def year_strs py_in.simps)
  have k5: "\<not> any_in [''last 3 years'', ''last three years''] ?Q"
    by (simp add: any_in_def py_in.simps)
  have k6: "\<not> py_in ''average'' ?Q"
    by (simp add: py_in.simps)
  have k7: "\<not> any_in [''total sales'', ''total revenue'', ''how much did we sell'',
                      ''how much revenue''] ?Q"
    by (simp add: any_in_def py_in.simps)
  have k8: "\<not> any_in [''which products'', ''by product'', ''across all products'',
                      ''rank products''] ?Q"
    by (simp add: any_in_def py_in.simps)
  have k9: "\<not> any_in [''category generates'', ''between categories'',
                      ''categories performing'', ''different categories''] ?Q"
    by (simp add: any_in_def py_in.simps)
  have k10: "\<not> any_in [''overall'', ''overview'', ''how are we doing'', ''sales performance'',
                      ''business performing''] ?Q"
    by (simp add: any_in_def py_in.simps)
  have tail: "stub_parse_tail ?Q ?Q None = ?P"
    unfolding stub_parse_tail_def Let_def two
    by (simp add: k5 k6 k7 k8 k9 k10 base_filters_def)
  have range: "stub_parse_range ?Q ?Q None = ?P"
    unfolding stub_parse_range_def rng by (simp add: tail)
  show ?thesis
    unfolding stub_parse_def Let_def q cat
    by (simp add: k1 k2 k3 k4 range)
qed

section \<open>The extractor on the two texts of the specification\<close>

text \<open>
  Claim C5, as stated: for the text \<open>revenue in 2022\<close> the rule-based extractor yields an
  intent carrying a year-2022 filter. It does not: the filters of the payload have no
  \<open>year\<close> key at all.
\<close>

theorem stub_parse_revenue_2022_has_no_year_filter:
  "\<not> (\<exists>fs. dict_get (stub_parse ''revenue in 2022'') ''filters'' = PDict fs
            \<and> dict_get fs ''year'' = PInt 2022)"
  by (simp add: stub_parse_revenue_in_2022 payload_def dict_get_def)

text \<open>
  Claim C5, amended: for the text \<open>revenue in 2022\<close> the extractor falls to its default rule
  and yields the intent \<open>sales_trend_over_time\<close> with metric \<open>total_revenue\<close>, dimension
  \<open>year\<close>, chart \<open>line\<close> and an empty filter map, although \<open>_extract_year\<close> finds 2022 in
  that text. The extractor is a function of the text alone (it reads and writes no
  state), so every invocation on this text gives this payload.
\<close>

theorem stub_parse_revenue_2022_default_trend:
  "stub_parse ''revenue in 2022'' =
     [(''intent'', PStr ''sales_trend_over_time''),
      (''metrics'', PList [PStr ''total_revenue'']),
      (''dimensions'', PList [PStr ''year'']),
      (''filters'', PDict []),
      (''chart'', PStr ''line'')]
   \<and> extract_year ''revenue in 2022'' = Some 2022"
  by (simp add: stub_parse_revenue_in_2022 payload_def extract_year_def year_strs py_in.simps)

text \<open>
  Claim C6. For the text \<open>top 5 products in 2023\<close> the extractor yields the intent
  \<open>top_bottom_performers\<close> with the filters limit 5, order top, entity product and year
  2023 (with metric \<open>total_revenue\<close>, dimension \<open>product\<close> and chart \<open>bar\<close>).
\<close>

theorem stub_parse_top_5_products_in_2023:
  "stub_parse ''top 5 products in 2023'' =
     [(''intent'', PStr ''top_bottom_performers''),
      (''metrics'', PList [PStr ''total_revenue'']),
      (''dimensions'', PList [PStr ''product'']),
      (''filters'', PDict [(''limit'', PInt 5), (''order'', PStr ''top''),
                           (''entity'', PStr ''product''), (''year'', PInt 2023)]),
      (''chart'', PStr ''bar'')]"
  (is "stub_parse ?Q = ?P")
proof -
  have q: "py_lower ?Q = ?Q" by (simp add: py_lower_def chr_defs)
  have cat: "extract_category ?Q = None"
    by (simp add: extract_category_def chr_defs str_defs rx_defs)
  have k1: "\<not> any_in [''by category'', ''per category'', ''group by category'',
                 ''grouped by category'', ''breakdown by category''] ?Q"
    by (simp add: any_in_def py_in.simps)
  have k2: "py_in ''top'' ?Q" "py_in ''product'' ?Q"
    "\<not> py_in ''category'' ?Q" "\<not> py_in ''categories'' ?Q"
    by (simp_all add: py_in.simps)
  have yr: "extract_year ?Q = Some 2023"
    by (simp add: extract_year_def year_strs py_in.simps)
  have lim: "extract_limit ?Q = Some 5"
    by (simp add: extract_limit_def chr_defs str_defs rx_defs)
  show ?thesis
    unfolding stub_parse_def Let_def q cat
    by (simp add: k1 k2 yr lim payload_def base_filters_def set_opt_def dict_set_def
        limit_or_def)
qed

section \<open>The smallest year wins\<close>

text \<open>
  Claim C10. For every text, \<open>_extract_year\<close> returns the numerically smallest year of
  2015..2030 whose decimal numeral occurs in the text as a contiguous run, whatever the
  order of the years in the text, and \<open>None\<close> exactly when no year of the range occurs.
\<close>

theorem extract_year_smallest:
  "(extract_year s = Some y \<longleftrightarrow>
      2015 \<le> y \<and> y \<le> 2030 \<and> sublist (str_int y) s
      \<and> (\<forall>z. 2015 \<le> z \<and> z < y \<longrightarrow> \<not> sublist (str_int z) s))
   \<and> (extract_year s = None \<longleftrightarrow>
      (\<forall>z. 2015 \<le> z \<and> z \<le> 2030 \<longrightarrow> \<not> sublist (str_int z) s))"
proof (intro conjI)
  show "extract_year s = Some y \<longleftrightarrow>
      2015 \<le> y \<and> y \<le> 2030 \<and> sublist (str_int y) s
      \<and> (\<forall>z. 2015 \<le> z \<and> z < y \<longrightarrow> \<not> sublist (str_int z) s)" (is "?L \<longleftrightarrow> ?R")
  proof
    assume ?L
    then obtain pre post where h: "[2015..2030] = pre @ y # post" "py_in (str_int y) s"
      "\<forall>z \<in> set pre. \<not> py_in (str_int z) s"
      unfolding extract_year_def first_year_Some by blast
    from upto_split_at [OF h(1)] h(2,3) show ?R
      by (auto simp: py_in_sublist)
  next
    assume r: ?R
    then have "[2015..2030] = [2015..y - 1] @ y # [y + 1..2030]"
      using upto_split3 [of 2015 y 2030] by blast
    moreover have "\<forall>z \<in> set [2015..y - 1]. \<not> py_in (str_int z) s"
      using r by (auto simp: py_in_sublist)
    ultimately show ?L
      unfolding extract_year_def first_year_Some using r by (metis py_in_sublist)
  qed
  show "extract_year s = None \<longleftrightarrow>
      (\<forall>z. 2015 \<le> z \<and> z \<le> 2030 \<longrightarrow> \<not> sublist (str_int z) s)"
    unfolding extract_year_def first_year_None py_in_sublist
    by (simp only: set_upto atLeastAtMost_iff Ball_def)
qed

text \<open>A text that mentions 2030 before 2016 yields 2016.\<close>

theorem extract_year_smallest_witness:
  "extract_year ''from 2030 back to 2016'' = Some 2016
   \<and> sublist (str_int 2016) ''from 2030 back to 2016''
   \<and> sublist (str_int 2030) ''from 2030 back to 2016''
   \<and> \<not> sublist (str_int 2015) ''from 2030 back to 2016''"
proof -
  have e: "extract_year ''from 2030 back to 2016'' = Some 2016"
    by (simp add: extract_year_def str_int_def digits.simps digit_char_def py_in.simps)
  have i: "sublist (str_int 2030) ''from 2030 back to 2016''"
    unfolding py_in_sublist [symmetric]
    by (simp add: str_int_def digits.simps digit_char_def py_in.simps)
  from e extract_year_smallest [of "''from 2030 back to 2016''" 2016] i
  show ?thesis by simp
qed

section \<open>Facts about the planner\<close>

subsection \<open>Dictionaries and the state of a branch\<close>

lemma dict_get_set: "dict_get (dict_set d k v) k' = (if k' = k then v else dict_get d k')"
  by (simp add: dict_get_def dict_set_def update_conv')

lemma dict_keys_set: "dict_keys (dict_set d k v) = insert k (dict_keys d)"
  by (simp add: dict_keys_def dict_set_def dom_update)

lemma dict_get_Nil [simp]: "dict_get [] k = PNone"
  by (simp add: dict_get_def)

lemma dict_get_Cons [simp]: "dict_get ((k, v) # d) k' = (if k' = k then v else dict_get d k')"
  by (simp add: dict_get_def)

lemma add_clause_sel [simp]:
  "q_where (add_clause c k v st) = q_where st @ [c]"
  "q_params (add_clause c k v st) = dict_set (q_params st) k v"
  "q_join (add_clause c k v st) = q_join st"
  by (simp_all add: add_clause_def)

lemma set_join_sel [simp]:
  "q_where (set_join st) = q_where st"
  "q_params (set_join st) = q_params st"
  "q_join (set_join st) = True"
  by (simp_all add: set_join_def)

lemma planned_sel [simp]:
  "sql (planned q ps c) = q" "params (planned q ps c) = ps" "chart_type (planned q ps c) = c"
  "label_field (planned q ps c) = ''label''" "value_field (planned q ps c) = ''value''"
  by (simp_all add: planned_def)

lemma limit_kept_year_range:
  "dict_get (q_params (add_year_range f st)) ''limit'' = dict_get (q_params st) ''limit''"
  by (simp add: add_year_range_def Let_def dict_get_set)

lemma limit_kept_year_or_range:
  "dict_get (q_params (add_year_or_range f st)) ''limit'' = dict_get (q_params st) ''limit''"
  by (simp add: add_year_or_range_def Let_def dict_get_set limit_kept_year_range)

lemma limit_kept_category:
  "dict_get (q_params (category_clause c st)) ''limit'' = dict_get (q_params st) ''limit''"
  by (simp add: category_clause_def dict_get_set)

lemma by_product_limit:
  "dict_get (params (plan_by_product fs chart)) ''limit'' = in_range_or 100 20 (dict_get fs ''limit'')"
  by (simp add: plan_by_product_def Let_def limit_kept_year_or_range limit_kept_category
      split: option.splits)

lemma top_bottom_limit:
  "dict_get (params (plan_top_bottom fs chart d)) ''limit'' = in_range_or 50 5 (dict_get fs ''limit'')"
  by (simp add: plan_top_bottom_def Let_def limit_kept_year_or_range)

lemma in_range_or_bounds:
  "0 < dflt \<Longrightarrow> dflt \<le> hi \<Longrightarrow> 1 \<le> int_val (in_range_or hi dflt l) \<and> int_val (in_range_or hi dflt l) \<le> hi"
  by (simp add: in_range_or_def)

lemma map_of_INTENTS:
  "map_of INTENTS s = Some spec \<Longrightarrow> spec_name spec = s \<and> s \<in> fst ` set INTENTS"
  by (auto simp: INTENTS_def intent_spec_def split: if_splits)

subsection \<open>Validation\<close>

lemma validate_Inr:
  assumes "validate fo ro p = Inr v"
  shows "dict_get p ''intent'' = PStr (v_intent v)"
    and "py_or (dict_get p ''filters'') (PDict []) = PDict (v_filters v)"
    and "v_intent v \<in> fst ` set INTENTS"
proof -
  from assms obtain spec where sp: "lookup_intent ro (dict_get p ''intent'') = Inr spec"
    by (auto simp: validate_def split: sum.splits)
  then obtain s where s: "dict_get p ''intent'' = PStr s" "map_of INTENTS s = Some spec"
    by (auto simp: lookup_intent_def split: option.splits pyval.splits)
  from assms sp have v: "v_intent v = spec_name spec"
    "is_dict (py_or (dict_get p ''filters'') (PDict []))"
    "v_filters v = (case py_or (dict_get p ''filters'') (PDict []) of PDict d \<Rightarrow> d | _ \<Rightarrow> [])"
    by (auto simp: validate_def Let_def split: sum.splits if_splits)
  from s v map_of_INTENTS [OF s(2)] show "dict_get p ''intent'' = PStr (v_intent v)"
    "v_intent v \<in> fst ` set INTENTS" by simp_all
  from v show "py_or (dict_get p ''filters'') (PDict []) = PDict (v_filters v)"
    by (cases "py_or (dict_get p ''filters'') (PDict [])") simp_all
qed

lemma plan_intent_Inr:
  assumes "plan_intent fo ro p = Inr plan"
  obtains v where "validate fo ro p = Inr v" "plan_branch ro v = Inr plan"
  using assms by (auto simp: plan_intent_def split: sum.splits)

lemma validate_payload:
  assumes "map_of INTENTS i = Some spec" and "d \<in> allowed_dimensions spec"
    and "allowed_metrics spec = {''total_revenue''}"
  shows "validate fo ro (payload i d fs c) =
           Inr \<lparr>v_intent = i, v_filters = fs, v_chart = choose_chart (PStr c) (default_chart spec),
                v_dim0 = PStr d\<rparr>"
proof -
  have n: "spec_name spec = i" using map_of_INTENTS [OF assms(1)] by simp
  have l: "lookup_intent ro (PStr i) = Inr spec"
    using assms(1) by (simp add: lookup_intent_def unhashable_def)
  have f: "py_or (PDict fs) (PDict []) = PDict fs"
    by (cases fs) (simp_all add: py_or_def)
  show ?thesis
    using assms(2,3) n
    by (simp add: validate_def payload_def l f py_or_def Let_def unhashable_def)
qed

lemma clar_spec: "map_of INTENTS ''clarification_required'' =
  Some \<lparr>spec_name = ''clarification_required'', allowed_metrics = {''total_revenue''},
        allowed_dimensions = {''year''}, default_chart = ''line''\<rparr>"
  by (simp add: INTENTS_def intent_spec_def)

section \<open>Facts about the conversion to float\<close>







section \<open>The clarification plan\<close>

text \<open>
  Claim C7. For the intent \<open>clarification_required\<close> the plan has an empty parameter map
  and the query \<open>SELECT 1::TEXT AS label, 0::NUMERIC AS value WHERE FALSE\<close>, whose
  condition is the constant \<open>FALSE\<close>: the database, which is not part of the code, returns
  no row for it. From no rows the response is assembled without an error, with
  \<open>labels = []\<close> and \<open>datasets = []\<close>.
\<close>

theorem clarification_plans_empty_chart:
  assumes "plan_intent first_of repr_of p = Inr plan"
    and "dict_get p ''intent'' = PStr ''clarification_required''"
  shows "params plan = []
       \<and> sql plan = ''SELECT 1::TEXT AS label, 0::NUMERIC AS value WHERE FALSE''
       \<and> assemble str_of the_title plan [] =
             Inr \<lparr>title = Some the_title, chartType = chart_type plan, labels = [],
                  datasets = []\<rparr>"
proof -
  from assms(1) obtain v where v: "validate first_of repr_of p = Inr v" "plan_branch repr_of v = Inr plan"
    by (rule plan_intent_Inr)
  from validate_Inr(1) [OF v(1)] assms(2) have "v_intent v = ''clarification_required''"
    by simp
  with v(2) have "plan = plan_clarification (v_chart v)"
    by (simp add: plan_branch_def Let_def)
  then show ?thesis
    by (simp add: plan_clarification_def sql_clarification_def assemble_def)
qed

theorem clarification_plans_empty_chart_witness:
  "plan_intent listed_first repr_cpython (payload ''clarification_required'' ''year'' [] ''line'')
     = Inr (planned sql_clarification [] ''line'')
   \<and> params (planned sql_clarification [] ''line'') = []
   \<and> assemble (\<lambda>v. ''None'') ''Sales overview (needs clarification)''
        (planned sql_clarification [] ''line'') [] =
       Inr \<lparr>title = Some ''Sales overview (needs clarification)'', chartType = ''line'',
            labels = [], datasets = []\<rparr>"
proof -
  have v: "validate listed_first repr_cpython (payload ''clarification_required'' ''year'' [] ''line'') =
      Inr \<lparr>v_intent = ''clarification_required'', v_filters = [], v_chart = ''line'',
           v_dim0 = PStr ''year''\<rparr>"
    using validate_payload [OF clar_spec, of "''year''" listed_first repr_cpython "[]" "''line''"]
    by (simp add: choose_chart_def py_or_def)
  have p: "plan_intent listed_first repr_cpython (payload ''clarification_required'' ''year'' [] ''line'')
     = Inr (planned sql_clarification [] ''line'')"
    by (simp add: plan_intent_def v plan_branch_def Let_def plan_clarification_def)
  have i: "dict_get (payload ''clarification_required'' ''year'' [] ''line'') ''intent''
      = PStr ''clarification_required''"
    by (simp add: payload_def)
  from clarification_plans_empty_chart [OF p i, of "\<lambda>v. ''None''" "''Sales overview (needs clarification)''"] p
  show ?thesis by simp
qed

section \<open>Numbers that cannot be converted\<close>










section \<open>Limits\<close>

lemma tbp_spec: "map_of INTENTS ''top_bottom_performers'' =
  Some \<lparr>spec_name = ''top_bottom_performers'', allowed_metrics = {''total_revenue''},
        allowed_dimensions = {''product'', ''category''}, default_chart = ''bar''\<rparr>"
  by (simp add: INTENTS_def intent_spec_def)

lemma sbp_spec: "map_of INTENTS ''sales_by_product'' =
  Some \<lparr>spec_name = ''sales_by_product'', allowed_metrics = {''total_revenue''},
        allowed_dimensions = {''product''}, default_chart = ''bar''\<rparr>"
  by (simp add: INTENTS_def intent_spec_def)

text \<open>
  Claim C1, as stated: a \<open>top_bottom_performers\<close> limit of 999 clamps to 50. It does not:
  a limit outside the range is replaced by the default, here 5.
\<close>

theorem limit_999_is_not_clamped_to_50:
  "\<exists>plan. plan_intent listed_first repr_cpython
             (payload ''top_bottom_performers'' ''product'' [(''limit'', PInt 999)] ''bar'')
           = Inr plan
         \<and> dict_get (params plan) ''limit'' = PInt 5
         \<and> dict_get (params plan) ''limit'' \<noteq> PInt 50"
proof -
  have v: "validate listed_first repr_cpython
      (payload ''top_bottom_performers'' ''product'' [(''limit'', PInt 999)] ''bar'') =
      Inr \<lparr>v_intent = ''top_bottom_performers'', v_filters = [(''limit'', PInt 999)],
           v_chart = ''bar'', v_dim0 = PStr ''product''\<rparr>"
    using validate_payload [OF tbp_spec, of "''product''"]
    by (simp add: choose_chart_def py_or_def)
  show ?thesis
    by (simp add: plan_intent_def v plan_branch_def Let_def top_bottom_limit in_range_or_def)
qed

text \<open>
  Claim C1, amended: in \<open>plan_intent\<close> the branch \<open>sales_by_product\<close> binds the given limit
  when it is an integer from 1 to 100 and the default 20 otherwise (so the limits 0, -5
  and 500 all give 20); the branch \<open>top_bottom_performers\<close> binds the given limit when it
  is an integer from 1 to 50 and the default 5 otherwise (so 999 gives 5). The limit bound
  is always within the range of its branch.
\<close>

theorem planned_limit:
  assumes "plan_intent first_of repr_of p = Inr plan"
    and "py_or (dict_get p ''filters'') (PDict []) = PDict fs"
  shows "(dict_get p ''intent'' = PStr ''sales_by_product'' \<longrightarrow>
            dict_get (params plan) ''limit'' =
              (if is_int (dict_get fs ''limit'') \<and> 1 \<le> int_val (dict_get fs ''limit'')
                  \<and> int_val (dict_get fs ''limit'') \<le> 100
               then dict_get fs ''limit'' else PInt 20)
          \<and> 1 \<le> int_val (dict_get (params plan) ''limit'')
          \<and> int_val (dict_get (params plan) ''limit'') \<le> 100)
       \<and> (dict_get p ''intent'' = PStr ''top_bottom_performers'' \<longrightarrow>
            dict_get (params plan) ''limit'' =
              (if is_int (dict_get fs ''limit'') \<and> 1 \<le> int_val (dict_get fs ''limit'')
                  \<and> int_val (dict_get fs ''limit'') \<le> 50
               then dict_get fs ''limit'' else PInt 5)
          \<and> 1 \<le> int_val (dict_get (params plan) ''limit'')
          \<and> int_val (dict_get (params plan) ''limit'') \<le> 50)"
proof -
  from assms(1) obtain v where v: "validate first_of repr_of p = Inr v" "plan_branch repr_of v = Inr plan"
    by (rule plan_intent_Inr)
  from validate_Inr(2) [OF v(1)] assms(2) have fs: "v_filters v = fs" by simp
  have i: "dict_get p ''intent'' = PStr (v_intent v)" by (rule validate_Inr(1) [OF v(1)])
  have a: "dict_get (params plan) ''limit'' = in_range_or 100 20 (dict_get fs ''limit'')"
    if "v_intent v = ''sales_by_product''"
    using that v(2) fs by (auto simp: plan_branch_def Let_def by_product_limit)
  have b: "dict_get (params plan) ''limit'' = in_range_or 50 5 (dict_get fs ''limit'')"
    if "v_intent v = ''top_bottom_performers''"
    using that v(2) fs by (auto simp: plan_branch_def Let_def top_bottom_limit)
  show ?thesis
    using a b by (auto simp: i in_range_or_def)
qed

theorem planned_limit_witness:
  "(\<exists>plan. plan_intent listed_first repr_cpython
             (payload ''sales_by_product'' ''product'' [(''limit'', PInt 0)] ''bar'') = Inr plan
          \<and> dict_get (params plan) ''limit'' = PInt 20)
   \<and> (\<exists>plan. plan_intent listed_first repr_cpython
             (payload ''sales_by_product'' ''product'' [(''limit'', PInt (- 5))] ''bar'') = Inr plan
          \<and> dict_get (params plan) ''limit'' = PInt 20)
   \<and> (\<exists>plan. plan_intent listed_first repr_cpython
             (payload ''sales_by_product'' ''product'' [(''limit'', PInt 500)] ''bar'') = Inr plan
          \<and> dict_get (params plan) ''limit'' = PInt 20)
   \<and> (\<exists>plan. plan_intent listed_first repr_cpython
             (payload ''sales_by_product'' ''product'' [(''limit'', PInt 100)] ''bar'') = Inr plan
          \<and> dict_get (params plan) ''limit'' = PInt 100)
   \<and> (\<exists>plan. plan_intent listed_first repr_cpython
             (payload ''top_bottom_performers'' ''category'' [(''limit'', PInt 50)] ''bar'') = Inr plan
          \<and> dict_get (params plan) ''limit'' = PInt 50)"
proof -
  have f: "py_or (dict_get (payload i d fs c) ''filters'') (PDict []) = PDict fs" for i d fs c
    by (cases fs) (simp_all add: payload_def py_or_def)
  have n: "dict_get (payload i d fs c) ''intent'' = PStr i" for i d fs c
    by (simp add: payload_def)
  have s: "\<exists>plan. plan_intent listed_first repr_cpython (payload ''sales_by_product'' ''product'' fs ''bar'')
      = Inr plan" for fs
    using validate_payload [OF sbp_spec, of "''product''" listed_first repr_cpython fs "''bar''"]
    by (simp add: plan_intent_def plan_branch_def Let_def)
  have t: "\<exists>plan. plan_intent listed_first repr_cpython (payload ''top_bottom_performers'' ''category'' fs ''bar'')
      = Inr plan" for fs
    using validate_payload [OF tbp_spec, of "''category''" listed_first repr_cpython fs "''bar''"]
    by (simp add: plan_intent_def plan_branch_def Let_def)
  show ?thesis
    using s t planned_limit [OF _ f] by (fastforce simp: n)
qed

section \<open>When planning fails\<close>

lemma validate_list_Inr:
  "(\<exists>u. validate_list ro xs A w = Inr u) \<longleftrightarrow> list_all (\<lambda>x. x \<in> PStr ` A) xs"
proof (induction xs)
  case Nil
  show ?case by simp
next
  case (Cons x xs)
  show ?case
  proof (cases x)
    case (PStr s)
    with Cons show ?thesis by (auto simp: unhashable_def)
  qed (auto simp: unhashable_def)
qed

lemma sum_cases_Inl: "(\<exists>e. r = Inl e) \<longleftrightarrow> \<not> (\<exists>u. r = Inr u)"
  by (cases r) auto

lemma validate_ok_iff: "(\<exists>v. validate fo ro p = Inr v) \<longleftrightarrow> valid_payload p"
proof (cases "dict_get p ''intent''")
  case (PStr s)
  show ?thesis
  proof (cases "map_of INTENTS s")
    case None
    with PStr show ?thesis
      by (simp add: validate_def valid_payload_def lookup_intent_def unhashable_def)
  next
    case (Some spec)
    have l: "lookup_intent ro (PStr s) = Inr spec"
      using Some by (simp add: lookup_intent_def unhashable_def)
    let ?m = "items (py_or (dict_get p ''metrics'') (PList []))"
    let ?d = "items (py_or (dict_get p ''dimensions'') (PList []))"
    have m: "(\<exists>u. validate_list ro ?m (allowed_metrics spec) ''metric'' = Inr u)
        \<longleftrightarrow> list_all (\<lambda>x. x \<in> PStr ` allowed_metrics spec) ?m"
      by (rule validate_list_Inr)
    have d: "(\<exists>u. validate_list ro ?d (allowed_dimensions spec) ''dimension'' = Inr u)
        \<longleftrightarrow> list_all (\<lambda>x. x \<in> PStr ` allowed_dimensions spec) ?d"
      by (rule validate_list_Inr)
    show ?thesis
    proof (cases "validate_list ro ?m (allowed_metrics spec) ''metric''")
      case (Inl e)
      with m PStr Some show ?thesis
        by (auto simp: validate_def valid_payload_def l Let_def)
    next
      case mr: (Inr u)
      show ?thesis
      proof (cases "validate_list ro ?d (allowed_dimensions spec) ''dimension''")
        case (Inl e)
        with d mr PStr Some show ?thesis
          by (auto simp: validate_def valid_payload_def l Let_def)
      next
        case (Inr u')
        with m d mr PStr Some show ?thesis
          by (auto simp: validate_def valid_payload_def l Let_def)
      qed
    qed
  qed
qed (simp_all add: validate_def valid_payload_def lookup_intent_def unhashable_def)

lemma validate_filters: "validate fo ro p = Inr v \<Longrightarrow> v_filters v = payload_filters p"
  by (auto simp: validate_def payload_filters_def Let_def split: sum.splits if_splits)

lemma intent_names:
  "fst ` set INTENTS =
     {''sales_trend'', ''sales_comparison'', ''revenue_by_category'', ''top_products'',
      ''sales_comparison_by_year'', ''sales_trend_over_time'', ''total_sales_for_period'',
      ''sales_by_product'', ''product_sales_trend'', ''sales_by_category'',
      ''top_bottom_performers'', ''sales_breakdown_for_year'', ''sales_growth_analysis'',
      ''clarification_required'', ''multi_year_comparison''}"
  by (simp add: INTENTS_def intent_spec_def)

lemma clean_categories_fails:
  "(\<exists>e. clean_categories ro cs = Inl e) \<longleftrightarrow> (\<exists>c\<in>set cs. \<exists>e. py_str ro c = Inl e)"
  by (induction cs) (auto split: sum.splits)

lemma add_categories_fails:
  "(\<exists>e. add_categories ro fs st = Inl e) \<longleftrightarrow>
     is_list (dict_get fs ''categories'')
     \<and> (\<exists>c\<in>set (items (dict_get fs ''categories'')). \<exists>e. py_str ro c = Inl e)"
proof (cases "dict_get fs ''categories''")
  case (PList xs)
  show ?thesis
    using clean_categories_fails [of ro xs]
    by (cases xs) (auto simp: add_categories_def PList Let_def split: sum.splits)
qed (simp_all add: add_categories_def)

lemma bind_fails:
  "(\<exists>e. (case r of Inl e \<Rightarrow> Inl e | Inr x \<Rightarrow> Inr (f x)) = Inl e) \<longleftrightarrow> (\<exists>e. r = Inl e)"
  by (cases r) auto

lemma plan_trend_fails:
  "(\<exists>e. plan_trend ro fs c = Inl e) \<longleftrightarrow>
     nonblank (dict_get fs ''category'') = None
     \<and> is_list (dict_get fs ''categories'')
     \<and> (\<exists>c\<in>set (items (dict_get fs ''categories'')). \<exists>e. py_str ro c = Inl e)"
proof (cases "nonblank (dict_get fs ''category'')")
  case None
  show ?thesis
    unfolding plan_trend_def Let_def None option.case bind_fails add_categories_fails
    by simp
next
  case (Some s)
  show ?thesis
    unfolding plan_trend_def Let_def Some option.case by simp
qed

lemma period_label_fails:
  "(\<exists>e. period_label ro fs = Inl e) \<longleftrightarrow>
     (if is_int (dict_get fs ''year'') then \<exists>e. py_str ro (dict_get fs ''year'') = Inl e
      else is_int (dict_get fs ''year_from'') \<and> is_int (dict_get fs ''year_to'')
           \<and> ((\<exists>e. py_str ro (dict_get fs ''year_from'') = Inl e)
              \<or> (\<exists>e. py_str ro (dict_get fs ''year_to'') = Inl e)))"
  by (auto simp: period_label_def Let_def split: sum.splits)

lemma plan_total_fails:
  "(\<exists>e. plan_total ro fs c = Inl e) \<longleftrightarrow> (\<exists>e. period_label ro fs = Inl e)"
  by (cases "period_label ro fs") (simp_all add: plan_total_def Let_def)

lemma plan_product_trend_fails:
  "(\<exists>e. plan_product_trend fs c = Inl e) \<longleftrightarrow>
     \<not> is_int (dict_get fs ''product_id'') \<and> nonblank (dict_get fs ''product_name'') = None"
  by (auto simp: plan_product_trend_def Let_def split: option.splits)

lemma plan_breakdown_fails:
  "(\<exists>e. plan_breakdown fs c d = Inl e) \<longleftrightarrow> \<not> is_int (dict_get fs ''year'')"
  by (auto simp: plan_breakdown_def Let_def)

lemma plan_branch_fails:
  assumes "v_intent v \<in> fst ` set INTENTS"
  shows "(\<exists>e. plan_branch ro v = Inl e) \<longleftrightarrow>
      (v_intent v = ''product_sales_trend''
         \<and> \<not> is_int (dict_get (v_filters v) ''product_id'')
         \<and> nonblank (dict_get (v_filters v) ''product_name'') = None)
    \<or> (v_intent v = ''sales_breakdown_for_year''
         \<and> \<not> is_int (dict_get (v_filters v) ''year''))
    \<or> (v_intent v \<in> {''sales_trend'', ''sales_comparison'', ''sales_trend_over_time''}
         \<and> (\<exists>e. plan_trend ro (v_filters v) (v_chart v) = Inl e))
    \<or> (v_intent v = ''total_sales_for_period''
         \<and> (\<exists>e. period_label ro (v_filters v) = Inl e))"
proof -
  from assms have "v_intent v = ''sales_trend'' \<or> v_intent v = ''sales_comparison''
      \<or> v_intent v = ''revenue_by_category'' \<or> v_intent v = ''top_products''
      \<or> v_intent v = ''sales_comparison_by_year'' \<or> v_intent v = ''sales_trend_over_time''
      \<or> v_intent v = ''total_sales_for_period'' \<or> v_intent v = ''sales_by_product''
      \<or> v_intent v = ''product_sales_trend'' \<or> v_intent v = ''sales_by_category''
      \<or> v_intent v = ''top_bottom_performers'' \<or> v_intent v = ''sales_breakdown_for_year''
      \<or> v_intent v = ''sales_growth_analysis'' \<or> v_intent v = ''clarification_required''
      \<or> v_intent v = ''multi_year_comparison''"
    unfolding intent_names by (simp only: insert_iff empty_iff simp_thms)
  then show ?thesis
    by (elim disjE)
       (simp_all add: plan_branch_def Let_def plan_total_fails plan_product_trend_fails
          plan_breakdown_fails)
qed

lemma pst_spec: "map_of INTENTS ''product_sales_trend'' =
  Some \<lparr>spec_name = ''product_sales_trend'', allowed_metrics = {''total_revenue''},
        allowed_dimensions = {''year''}, default_chart = ''line''\<rparr>"
  by (simp add: INTENTS_def intent_spec_def)

lemma sbfy_spec: "map_of INTENTS ''sales_breakdown_for_year'' =
  Some \<lparr>spec_name = ''sales_breakdown_for_year'', allowed_metrics = {''total_revenue''},
        allowed_dimensions = {''product'', ''category''}, default_chart = ''bar''\<rparr>"
  by (simp add: INTENTS_def intent_spec_def)

lemma tsp_spec: "map_of INTENTS ''total_sales_for_period'' =
  Some \<lparr>spec_name = ''total_sales_for_period'', allowed_metrics = {''total_revenue''},
        allowed_dimensions = {''year''}, default_chart = ''bar''\<rparr>"
  by (simp add: INTENTS_def intent_spec_def)

lemma st_spec: "map_of INTENTS ''sales_trend'' =
  Some \<lparr>spec_name = ''sales_trend'', allowed_metrics = {''total_revenue''},
        allowed_dimensions = {''year''}, default_chart = ''line''\<rparr>"
  by (simp add: INTENTS_def intent_spec_def)

lemma valid_payload_payload:
  assumes "map_of INTENTS i = Some spec" and "d \<in> allowed_dimensions spec"
    and "allowed_metrics spec = {''total_revenue''}"
  shows "valid_payload (payload i d fs c)"
  using validate_payload [OF assms, of fo ro fs c] validate_ok_iff [of fo ro "payload i d fs c"]
  by simp

lemma payload_filters_payload: "payload_filters (payload i d fs c) = fs"
  by (cases fs) (simp_all add: payload_filters_def payload_def py_or_def)

lemma payload_intent: "dict_get (payload i d fs c) ''intent'' = PStr i"
  by (simp add: payload_def)

lemma blank_space: "nonblank (PStr '' '') = None"
  by (simp add: nonblank_def py_strip_def strip_with_def py_isspace_def)

text \<open>
  Claim C2, as stated: \<open>product_sales_trend\<close> fails only without an integer
  \<open>product_id\<close> and without a non-empty \<open>product_name\<close>. A \<open>product_name\<close> of one blank is
  a non-empty string, and the plan fails.
\<close>

theorem blank_product_name_is_refused:
  "plan_intent listed_first repr_cpython
     (payload ''product_sales_trend'' ''year'' [(''product_name'', PStr '' '')] ''line'')
   = Inl (QueryPlannerError ''product_sales_trend requires product_id or product_name'')
   \<and> '' '' \<noteq> ''''"
proof -
  have v: "validate listed_first repr_cpython
      (payload ''product_sales_trend'' ''year'' [(''product_name'', PStr '' '')] ''line'') =
      Inr \<lparr>v_intent = ''product_sales_trend'', v_filters = [(''product_name'', PStr '' '')],
           v_chart = ''line'', v_dim0 = PStr ''year''\<rparr>"
    using validate_payload [OF pst_spec, of "''year''"]
    by (simp add: choose_chart_def py_or_def)
  show ?thesis
    by (simp add: plan_intent_def v plan_branch_def Let_def plan_product_trend_def blank_space)
qed

text \<open>
  Claim C2, amended: \<open>plan_intent\<close> fails exactly when the payload does not pass the
  checks at its head (the intent is not a key of the catalog; metrics or dimensions are
  not lists, or the filters are not a dictionary; a metric or a dimension is not allowed
  for the intent), or the intent is \<open>product_sales_trend\<close> with neither an integer
  \<open>product_id\<close> nor a \<open>product_name\<close> that is a string with a character other than
  whitespace, or the intent is \<open>sales_breakdown_for_year\<close> without an integer \<open>year\<close>, or
  a value that the branch prints cannot be printed: an item of the list \<open>categories\<close> of
  one of the three trend intents, read when no category that is not blank is given, or
  the integer \<open>year\<close> of \<open>total_sales_for_period\<close>, or else the integers \<open>year_from\<close> and
  \<open>year_to\<close> when both are given. Every other payload, whatever its filters, gets a plan;
  this holds for every \<open>repr_of\<close>, so wherever the interpreter places its limits.
\<close>

theorem plan_intent_fails_iff:
  "(\<exists>e. plan_intent first_of repr_of p = Inl e) \<longleftrightarrow>
     \<not> valid_payload p
   \<or> (dict_get p ''intent'' = PStr ''product_sales_trend''
        \<and> \<not> is_int (dict_get (payload_filters p) ''product_id'')
        \<and> nonblank (dict_get (payload_filters p) ''product_name'') = None)
   \<or> (dict_get p ''intent'' = PStr ''sales_breakdown_for_year''
        \<and> \<not> is_int (dict_get (payload_filters p) ''year''))
   \<or> (dict_get p ''intent''
          \<in> {PStr ''sales_trend'', PStr ''sales_comparison'', PStr ''sales_trend_over_time''}
        \<and> nonblank (dict_get (payload_filters p) ''category'') = None
        \<and> is_list (dict_get (payload_filters p) ''categories'')
        \<and> (\<exists>c\<in>set (items (dict_get (payload_filters p) ''categories'')).
              \<exists>e. py_str repr_of c = Inl e))
   \<or> (dict_get p ''intent'' = PStr ''total_sales_for_period''
        \<and> (if is_int (dict_get (payload_filters p) ''year'')
            then \<exists>e. py_str repr_of (dict_get (payload_filters p) ''year'') = Inl e
            else is_int (dict_get (payload_filters p) ''year_from'')
                 \<and> is_int (dict_get (payload_filters p) ''year_to'')
                 \<and> ((\<exists>e. py_str repr_of (dict_get (payload_filters p) ''year_from'') = Inl e)
                    \<or> (\<exists>e. py_str repr_of (dict_get (payload_filters p) ''year_to'') = Inl e))))"
proof (cases "validate first_of repr_of p")
  case (Inl e)
  then have "\<not> valid_payload p" using validate_ok_iff [of first_of repr_of p] by simp
  with Inl show ?thesis by (simp add: plan_intent_def)
next
  case (Inr v)
  then have ok: "valid_payload p" using validate_ok_iff [of first_of repr_of p] by auto
  have i: "dict_get p ''intent'' = PStr (v_intent v)" by (rule validate_Inr(1) [OF Inr])
  have f: "v_filters v = payload_filters p" by (rule validate_filters [OF Inr])
  have "(\<exists>e. plan_intent first_of repr_of p = Inl e) \<longleftrightarrow> (\<exists>e. plan_branch repr_of v = Inl e)"
    by (simp add: plan_intent_def Inr)
  also note plan_branch_fails [OF validate_Inr(3) [OF Inr]]
  finally show ?thesis
    using ok unfolding plan_trend_fails period_label_fails by (simp add: i f)
qed

lemma long_int_small:
  assumes "\<bar>i\<bar> < 10000"
  shows "\<not> long_int (PInt i)"
proof -
  have p: "(10::int) ^ 4 \<le> 10 ^ 4300" by (rule power_increasing) simp_all
  have q: "(10::int) ^ 4 = 10000" by simp
  have "(10000::int) \<le> 10 ^ 4300" using p unfolding q .
  with assms have "\<bar>i\<bar> < 10 ^ 4300" by (rule less_le_trans)
  then show ?thesis by (simp only: long_int.simps not_le)
qed

lemma long_int_large: "long_int (PInt (10 ^ 4300))"
  by (simp only: long_int.simps power_abs abs_numeral order_refl)

theorem plan_intent_fails_iff_witness:
  "\<not> (\<exists>e. plan_intent listed_first repr_cpython
            (payload ''product_sales_trend'' ''year'' [(''product_id'', PInt 3)] ''line'')
          = Inl e)
   \<and> (\<exists>e. plan_intent listed_first repr_cpython
            (payload ''product_sales_trend'' ''year'' [(''year_from'', PInt 2020)] ''line'')
          = Inl e)
   \<and> (\<exists>e. plan_intent listed_first repr_cpython (payload ''sales_breakdown_for_year'' ''product'' [] ''bar'')
          = Inl e)
   \<and> (\<exists>e. plan_intent listed_first repr_cpython
            [(''intent'', PStr ''sales_trend''), (''metrics'', PList [PStr ''profit''])]
          = Inl e)
   \<and> \<not> (\<exists>e. plan_intent listed_first repr_cpython
            (payload ''total_sales_for_period'' ''year'' [(''year'', PInt 2022)] ''bar'')
          = Inl e)
   \<and> (\<exists>e. plan_intent listed_first repr_cpython
            (payload ''total_sales_for_period'' ''year'' [(''year'', PInt (10 ^ 4300))] ''bar'')
          = Inl e)
   \<and> (\<exists>e. plan_intent listed_first repr_cpython
            (payload ''sales_trend'' ''year'' [(''categories'', PList [PInt (10 ^ 4300)])] ''line'')
          = Inl e)"
proof -
  define big :: int where "big = 10 ^ 4300"
  have big: "long_int (PInt big)" unfolding big_def by (rule long_int_large)
  have a: "valid_payload (payload ''product_sales_trend'' ''year'' fs c)" for fs c
    by (rule valid_payload_payload [OF pst_spec]) simp_all
  have b: "valid_payload (payload ''sales_breakdown_for_year'' ''product'' fs c)" for fs c
    by (rule valid_payload_payload [OF sbfy_spec]) simp_all
  have c: "\<not> valid_payload [(''intent'', PStr ''sales_trend''), (''metrics'', PList [PStr ''profit''])]"
    by (simp add: valid_payload_def INTENTS_def intent_spec_def py_or_def)
  have d: "valid_payload (payload ''total_sales_for_period'' ''year'' fs c)" for fs c
    by (rule valid_payload_payload [OF tsp_spec]) simp_all
  have e: "valid_payload (payload ''sales_trend'' ''year'' fs c)" for fs c
    by (rule valid_payload_payload [OF st_spec]) simp_all
  have "\<not> (\<exists>e. plan_intent listed_first repr_cpython
            (payload ''product_sales_trend'' ''year'' [(''product_id'', PInt 3)] ''line'')
          = Inl e)
   \<and> (\<exists>e. plan_intent listed_first repr_cpython
            (payload ''product_sales_trend'' ''year'' [(''year_from'', PInt 2020)] ''line'')
          = Inl e)
   \<and> (\<exists>e. plan_intent listed_first repr_cpython (payload ''sales_breakdown_for_year'' ''product'' [] ''bar'')
          = Inl e)
   \<and> (\<exists>e. plan_intent listed_first repr_cpython
            [(''intent'', PStr ''sales_trend''), (''metrics'', PList [PStr ''profit''])]
          = Inl e)
   \<and> \<not> (\<exists>e. plan_intent listed_first repr_cpython
            (payload ''total_sales_for_period'' ''year'' [(''year'', PInt 2022)] ''bar'')
          = Inl e)
   \<and> (\<exists>e. plan_intent listed_first repr_cpython
            (payload ''total_sales_for_period'' ''year'' [(''year'', PInt big)] ''bar'')
          = Inl e)
   \<and> (\<exists>e. plan_intent listed_first repr_cpython
            (payload ''sales_trend'' ''year'' [(''categories'', PList [PInt big])] ''line'')
          = Inl e)"
    using plan_intent_fails_iff [of listed_first repr_cpython
        "payload ''product_sales_trend'' ''year'' [(''product_id'', PInt 3)] ''line''"]
      plan_intent_fails_iff [of listed_first repr_cpython
        "payload ''product_sales_trend'' ''year'' [(''year_from'', PInt 2020)] ''line''"]
      plan_intent_fails_iff [of listed_first repr_cpython
        "payload ''sales_breakdown_for_year'' ''product'' [] ''bar''"]
      plan_intent_fails_iff [of listed_first repr_cpython
        "[(''intent'', PStr ''sales_trend''), (''metrics'', PList [PStr ''profit''])]"]
      plan_intent_fails_iff [of listed_first repr_cpython
        "payload ''total_sales_for_period'' ''year'' [(''year'', PInt 2022)] ''bar''"]
      plan_intent_fails_iff [of listed_first repr_cpython
        "payload ''total_sales_for_period'' ''year'' [(''year'', PInt big)] ''bar''"]
      plan_intent_fails_iff [of listed_first repr_cpython
        "payload ''sales_trend'' ''year'' [(''categories'', PList [PInt big])] ''line''"]
    by (simp add: a b c d e payload_filters_payload payload_intent nonblank_def
          py_str_def repr_cpython_def big long_int_small del: long_int.simps)
  then show ?thesis unfolding big_def .
qed

section \<open>The payloads of the extractor pass validation\<close>

lemma shaped_payload: "(i, d) \<in> stub_shapes \<Longrightarrow> shaped (payload i d fs c)"
  unfolding shaped_def by blast

lemma shaped_if: "shaped a \<Longrightarrow> shaped b \<Longrightarrow> shaped (if c then a else b)"
  by simp

lemma stub_parse_tail_shape: "shaped (stub_parse_tail question q category)"
  unfolding stub_parse_tail_def Let_def
  by (intro shaped_if shaped_payload) (simp_all add: stub_shapes_def)

lemma stub_parse_range_shape: "shaped (stub_parse_range question q category)"
proof (cases "extract_year_range q")
  case (Pair year_from year_to)
  show ?thesis
    unfolding stub_parse_range_def Let_def Pair prod.case
    by (intro shaped_if shaped_payload stub_parse_tail_shape) (simp_all add: stub_shapes_def)
qed

lemma stub_parse_shape: "shaped (stub_parse q)"
  unfolding stub_parse_def Let_def
  by (intro shaped_if shaped_payload stub_parse_range_shape) (simp_all add: stub_shapes_def)

lemma stub_shapes_valid:
  assumes "(i, d) \<in> stub_shapes"
  shows "\<exists>spec. map_of INTENTS i = Some spec \<and> d \<in> allowed_dimensions spec
           \<and> allowed_metrics spec = {''total_revenue''}"
proof -
  from assms have
    "(i = ''sales_by_category'' \<and> d = ''category'')
     \<or> (i = ''top_bottom_performers'' \<and> d = ''product'')
     \<or> (i = ''top_bottom_performers'' \<and> d = ''category'')
     \<or> (i = ''sales_breakdown_for_year'' \<and> d = ''product'')
     \<or> (i = ''sales_breakdown_for_year'' \<and> d = ''category'')
     \<or> (i = ''product_sales_trend'' \<and> d = ''year'')
     \<or> (i = ''sales_growth_analysis'' \<and> d = ''year'')
     \<or> (i = ''sales_trend_over_time'' \<and> d = ''year'')
     \<or> (i = ''sales_comparison_by_year'' \<and> d = ''year'')
     \<or> (i = ''multi_year_comparison'' \<and> d = ''year'')
     \<or> (i = ''total_sales_for_period'' \<and> d = ''year'')
     \<or> (i = ''sales_by_product'' \<and> d = ''product'')
     \<or> (i = ''clarification_required'' \<and> d = ''year'')"
    unfolding stub_shapes_def by (simp only: insert_iff empty_iff prod.inject simp_thms)
  then show ?thesis
    by (elim disjE conjE) (simp_all add: INTENTS_def intent_spec_def)
qed

text \<open>
  Claim C8: for every question, the payload of \<open>_stub_parse\<close> names an intent of the
  catalog, its metrics are the one metric \<open>total_revenue\<close>, which the entry allows, its
  dimensions are one dimension that the entry allows, and the head of \<open>plan_intent\<close>
  accepts it, wherever the interpreter lists a set first and however it prints values.
\<close>

theorem stub_parse_passes_validation:
  "\<exists>i spec d. dict_get (stub_parse q) ''intent'' = PStr i
      \<and> map_of INTENTS i = Some spec
      \<and> dict_get (stub_parse q) ''metrics'' = PList [PStr ''total_revenue'']
      \<and> ''total_revenue'' \<in> allowed_metrics spec
      \<and> dict_get (stub_parse q) ''dimensions'' = PList [PStr d]
      \<and> d \<in> allowed_dimensions spec
      \<and> (\<exists>v. validate first_of repr_of (stub_parse q) = Inr v)"
proof -
  obtain i d fs c where s: "stub_parse q = payload i d fs c" "(i, d) \<in> stub_shapes"
    using stub_parse_shape [of q] unfolding shaped_def by blast
  obtain spec where sp: "map_of INTENTS i = Some spec" "d \<in> allowed_dimensions spec"
    "allowed_metrics spec = {''total_revenue''}"
    using stub_shapes_valid [OF s(2)] by blast
  have "\<exists>v. validate first_of repr_of (stub_parse q) = Inr v"
    unfolding s(1) using validate_payload [OF sp] by blast
  with sp show ?thesis
    unfolding s(1) by (simp add: payload_def)
qed

theorem stub_parse_passes_validation_witness:
  "\<exists>i spec d. dict_get (stub_parse ''worst products of 2021'') ''intent'' = PStr i
      \<and> map_of INTENTS i = Some spec
      \<and> dict_get (stub_parse ''worst products of 2021'') ''metrics'' = PList [PStr ''total_revenue'']
      \<and> ''total_revenue'' \<in> allowed_metrics spec
      \<and> dict_get (stub_parse ''worst products of 2021'') ''dimensions'' = PList [PStr d]
      \<and> d \<in> allowed_dimensions spec
      \<and> (\<exists>v. validate listed_first repr_cpython (stub_parse ''worst products of 2021'') = Inr v)"
  by (rule stub_parse_passes_validation)

end
